theory Spec2Isabelle
  imports Complex_Main "HOL-Library.AList" "HOL-Library.Multiset"
begin

section \<open>Python values and exceptions\<close>

text \<open>
  The module is Python running inside the Odoo ORM. Values that cross the ORM boundary
  (evaluated domains, keys and aggregates of \<open>read_group\<close> rows, field values, the
  entries of a \<open>vals\<close> dict) are dynamically typed, so they are embedded as one datatype.
  A Python float is embedded as the rational number it denotes (infinities and NaN, which
  the aggregates of the ORM do not produce, are left out). The operations on floats are
  not exact: they belong to the host, see below. Strings are byte lists holding the UTF-8
  encoding of the Python text (concatenation, equality and the search for the ASCII dot
  commute with that encoding).
\<close>

datatype pyval =
    PNone
  | PBool bool
  | PInt int
  | PFloat rat
  | PStr string
  | PTuple "pyval list"
  | PList "pyval list"

text \<open>
  The exception classes that the modelled code can meet; all of them derive from Python's
  \<open>Exception\<close>, so an \<open>except Exception\<close> clause catches every one.
  \<open>HostError\<close> stands for whatever an ORM call raises.
\<close>

datatype exn =
    TypeError
  | ValueError
  | IndexError
  | KeyError
  | AttributeError
  | ZeroDivisionError
  | OverflowError
  | UserError
  | HostError

definition thenE :: "exn + 'a \<Rightarrow> ('a \<Rightarrow> exn + 'b) \<Rightarrow> exn + 'b" where
  "thenE m f = (case m of Inl e \<Rightarrow> Inl e | Inr x \<Rightarrow> f x)"

text \<open>\<open>try: m except Exception: h\<close>\<close>

definition try_except :: "exn + 'a \<Rightarrow> 'a \<Rightarrow> 'a" where
  "try_except m h = (case m of Inl e \<Rightarrow> h | Inr x \<Rightarrow> x)"

text \<open>Truth value of a Python object (\<open>if x\<close>, \<open>not x\<close>, \<open>x or y\<close>).\<close>

fun truthy :: "pyval \<Rightarrow> bool" where
  "truthy PNone = False"
| "truthy (PBool b) = b"
| "truthy (PInt i) = (i \<noteq> 0)"
| "truthy (PFloat r) = (r \<noteq> 0)"
| "truthy (PStr s) = (s \<noteq> [])"
| "truthy (PTuple xs) = (xs \<noteq> [])"
| "truthy (PList xs) = (xs \<noteq> [])"

definition py_or :: "pyval \<Rightarrow> pyval \<Rightarrow> pyval" where
  "py_or a b = (if truthy a then a else b)"

text \<open>\<open>isinstance(key, (list, tuple))\<close>\<close>

fun is_seq :: "pyval \<Rightarrow> bool" where
  "is_seq (PTuple xs) = True"
| "is_seq (PList xs) = True"
| "is_seq v = False"

fun seq_items :: "pyval \<Rightarrow> pyval list" where
  "seq_items (PTuple xs) = xs"
| "seq_items (PList xs) = xs"
| "seq_items v = []"

text \<open>\<open>key[0] if isinstance(key, (list, tuple)) else key\<close>; indexing an empty
  sequence raises.\<close>

definition first_or_self :: "pyval \<Rightarrow> exn + pyval" where
  "first_or_self key =
     (if is_seq key
      then (case seq_items key of [] \<Rightarrow> Inl IndexError | x # xs \<Rightarrow> Inr x)
      else Inr key)"

text \<open>\<open>key[1] if isinstance(key, (list, tuple)) and len(key) > 1 else (key or 'Undefined')\<close>\<close>

definition second_or_undefined :: "pyval \<Rightarrow> pyval" where
  "second_or_undefined key =
     (if is_seq key \<and> length (seq_items key) > 1
      then seq_items key ! 1
      else py_or key (PStr ''Undefined''))"

text \<open>The characters of a Python string, each as the bytes of its UTF-8 encoding: a byte
  from \<open>0x80\<close> to \<open>0xBF\<close> continues the character begun before it.\<close>

definition continuation_byte :: "char \<Rightarrow> bool" where
  "continuation_byte c \<longleftrightarrow> 128 \<le> (of_char c :: nat) \<and> (of_char c :: nat) < 192"

definition code_points :: "string \<Rightarrow> string list" where
  "code_points s =
     (case foldr (\<lambda>c (pending, done).
                    if continuation_byte c then (c # pending, done)
                    else ([], (c # pending) # done))
             s ([], []) of
        (pending, done) \<Rightarrow> if pending = [] then done else pending # done)"

text \<open>\<open>list(x)\<close>: a sequence gives its items, a string its characters, anything else of
  the embedded values is not iterable.\<close>

fun py_list :: "pyval \<Rightarrow> exn + pyval list" where
  "py_list (PList xs) = Inr xs"
| "py_list (PTuple xs) = Inr xs"
| "py_list (PStr s) = Inr (map PStr (code_points s))"
| "py_list v = Inl TypeError"

subsection \<open>Dictionary keys\<close>

text \<open>
  A Python dict identifies keys by \<open>==\<close>: \<open>1\<close>, \<open>1.0\<close> and \<open>True\<close> are one key. Lists
  are unhashable, and so is a tuple that holds one. \<open>key_of\<close> is the canonical
  representative of a key's equality class.
\<close>

fun hashable :: "pyval \<Rightarrow> bool" where
  "hashable (PList xs) = False"
| "hashable (PTuple xs) = list_all hashable xs"
| "hashable v = True"

fun key_of :: "pyval \<Rightarrow> pyval" where
  "key_of (PBool b) = PFloat (if b then 1 else 0)"
| "key_of (PInt i) = PFloat (of_int i)"
| "key_of (PTuple xs) = PTuple (map key_of xs)"
| "key_of v = v"

type_synonym 'v pydict = "(pyval \<times> 'v) list"

text \<open>\<open>d[k] = v\<close>: an existing key keeps its place, a new one goes last.\<close>

definition dict_set :: "'v pydict \<Rightarrow> pyval \<Rightarrow> 'v \<Rightarrow> exn + 'v pydict" where
  "dict_set d k v = (if hashable k then Inr (AList.update (key_of k) v d) else Inl TypeError)"

text \<open>\<open>d.get(k, default)\<close>\<close>

definition dict_get :: "'v pydict \<Rightarrow> pyval \<Rightarrow> 'v \<Rightarrow> exn + 'v" where
  "dict_get d k dflt =
     (if hashable k
      then Inr (case map_of d (key_of k) of None \<Rightarrow> dflt | Some v \<Rightarrow> v)
      else Inl TypeError)"

subsection \<open>Decimal rounding\<close>

text \<open>Rounding of an exact value to the nearest multiple of \<open>10\<^sup>-\<^sup>n\<close>, a tie going to
  the even one. This is how a host that computes with exact decimals rounds; the example
  hosts further down do. Python's \<open>round\<close> on binary floats is a function of the host.\<close>

definition round_half_even :: "rat \<Rightarrow> int" where
  "round_half_even x =
     (let f = \<lfloor>x\<rfloor>; d = x - of_int f
      in if d < 1 / 2 then f
         else if 1 / 2 < d then f + 1
         else if even f then f else f + 1)"

definition py_round :: "rat \<Rightarrow> nat \<Rightarrow> rat" where
  "py_round x n = of_int (round_half_even (x * 10 ^ n)) / 10 ^ n"

section \<open>The host: ORM and standard library\<close>

text \<open>
  One row of a \<open>read_group\<close> result. The ORM always stores an integer under
  \<open>__count\<close>; every other entry is an arbitrary value.
\<close>

record group =
  g_count :: "int option"
  g_vals :: "string \<Rightarrow> pyval option"

text \<open>\<open>g.get(name)\<close>: \<open>None\<close> for a missing key.\<close>

definition g_get :: "group \<Rightarrow> string \<Rightarrow> pyval" where
  "g_get g name =
     (if name = ''__count''
      then (case g_count g of None \<Rightarrow> PNone | Some c \<Rightarrow> PInt c)
      else (case g_vals g name of None \<Rightarrow> PNone | Some v \<Rightarrow> v))"

text \<open>\<open>g.get('__count', 0)\<close>\<close>

definition g_get_count :: "group \<Rightarrow> int" where
  "g_get_count g = (case g_count g of None \<Rightarrow> 0 | Some c \<Rightarrow> c)"

text \<open>A row of \<open>ir.model.fields\<close>; a \<open>False\<close> text is the empty string.\<close>

record field_info =
  field_description :: string
  ttype :: string
  relation :: string

text \<open>\<open>fields.Date.context_today\<close> gives a date; the code also accepts a string. A date
  is its proleptic Gregorian ordinal, as in \<open>date.toordinal()\<close>.\<close>

datatype today_val = TodayDate int | TodayStr string

text \<open>The \<open>date_order\<close> of a sale order: unset, a string, or a datetime (of which only
  the day matters here).\<close>

datatype date_val = DFalse | DStr string | DDatetime int

record order_row =
  date_order :: date_val
  row_getattr :: "string \<Rightarrow> exn + pyval"

text \<open>
  What \<open>getattr(rel_rec, rel_field, None)\<close> gives, by the observations the code makes
  of it: its truth value; the attributes \<open>id\<close> and \<open>name\<close> (\<open>None\<close>: \<open>hasattr\<close> is
  false; \<open>Inl\<close>: reading the attribute raises); the object itself, as the value that
  stands for it when it is used as a dictionary key; and \<open>str(target)\<close>.
\<close>

record target =
  t_truthy :: bool
  t_id :: "(exn + pyval) option"
  t_name :: "(exn + pyval) option"
  t_self :: pyval
  t_str :: string

text \<open>
  Everything outside this module that the code calls. Each call that can raise returns a
  sum; the database is only read by the functions modelled with this record.
\<close>

record host =
  safe_eval :: "string \<Rightarrow> exn + pyval"
  read_group :: "string \<Rightarrow> pyval \<Rightarrow> string list \<Rightarrow> string list \<Rightarrow> exn + group list"
  search_count :: "string \<Rightarrow> pyval \<Rightarrow> exn + int"
  search_rows :: "pyval \<Rightarrow> exn + order_row list"
  ir_model_fields :: "string \<Rightarrow> pyval \<Rightarrow> exn + field_info option"
  browse_getattr :: "string \<Rightarrow> pyval \<Rightarrow> string \<Rightarrow> exn + target"
  context_today :: today_val
  strptime_ymd :: "string \<Rightarrow> exn + int"
  strptime_ymd_hms :: "string \<Rightarrow> exn + int"
  strftime_ymd :: "int \<Rightarrow> string"
  repr_of :: "pyval \<Rightarrow> string"
  float_of_str :: "string \<Rightarrow> exn + rat"
  float_of_int :: "int \<Rightarrow> exn + rat"
  float_add :: "rat \<Rightarrow> rat \<Rightarrow> rat"
  float_mul :: "rat \<Rightarrow> rat \<Rightarrow> rat"
  float_div :: "rat \<Rightarrow> rat \<Rightarrow> rat"
  float_round :: "rat \<Rightarrow> nat \<Rightarrow> rat"

text \<open>\<open>str(x)\<close>: a string is itself; the text of any other value is the host's.\<close>

definition py_str :: "host \<Rightarrow> pyval \<Rightarrow> string" where
  "py_str h v = (case v of PStr s \<Rightarrow> s | _ \<Rightarrow> repr_of h v)"

text \<open>
  Floating point. The sum, product and quotient of two floats and the rounding of a float
  to \<open>n\<close> decimals are the nearest floats that the host computes (\<open>float_add\<close>,
  \<open>float_mul\<close>, \<open>float_div\<close>, \<open>float_round\<close>); nothing is assumed of them. Converting
  an integer (\<open>float_of_int\<close>) gives the nearest float, or \<open>OverflowError\<close>.
\<close>

text \<open>\<open>float(x)\<close>\<close>

fun py_float :: "host \<Rightarrow> pyval \<Rightarrow> exn + rat" where
  "py_float h (PFloat r) = Inr r"
| "py_float h (PInt i) = float_of_int h i"
| "py_float h (PBool b) = Inr (if b then 1 else 0)"
| "py_float h (PStr s) = float_of_str h s"
| "py_float h v = Inl TypeError"

text \<open>\<open>round(x, n)\<close> of a float: zero stays zero, any other value is rounded by the
  host.\<close>

definition round_float :: "host \<Rightarrow> rat \<Rightarrow> nat \<Rightarrow> rat" where
  "round_float h x n = (if x = 0 then 0 else float_round h x n)"

text \<open>\<open>d + timedelta(days=k)\<close>: dates run from ordinal 1 to 3652059.\<close>

definition date_add :: "int \<Rightarrow> int \<Rightarrow> exn + int" where
  "date_add d k = (if 1 \<le> d + k \<and> d + k \<le> 3652059 then Inr (d + k) else Inl OverflowError)"

text \<open>\<open>date.weekday()\<close>: Monday is 0.\<close>

definition weekday :: "int \<Rightarrow> nat" where
  "weekday d = nat ((d + 6) mod 7)"

section \<open>The report records\<close>

text \<open>
  The stored fields that \<open>get_chart_data\<close> reads. A text or selection field that is
  \<open>False\<close> is the empty string (both are false in every test the code makes);
  \<open>looker_studio.order_report\<close> has all fields but \<open>success_domain\<close>.
\<close>

record order_report =
  domain :: string
  group_field :: string
  value_field :: string
  limit :: int

record report = order_report +
  success_domain :: string

record chart_data =
  labels :: "string list"
  count_values :: "int list"
  sum_values :: "pyval list"
  line_labels :: "string list"
  line_values :: "pyval list"

definition zeroed :: chart_data where
  "zeroed = \<lparr>labels = [], count_values = [], sum_values = [], line_labels = [], line_values = []\<rparr>"

subsection \<open>\<open>_eval_domain\<close>\<close>

text \<open>The body inside \<open>try\<close> is the call of \<open>safe_eval\<close>; the handler returns \<open>[]\<close>.
  Both models carry the same method.\<close>

definition eval_domain :: "host \<Rightarrow> 'a order_report_scheme \<Rightarrow> exn + pyval" where
  "eval_domain h r =
     (if domain r = [] then Inr (PList [])
      else Inr (try_except (safe_eval h (domain r)) (PList [])))"

definition LookerReport_eval_domain :: "host \<Rightarrow> report \<Rightarrow> exn + pyval" where
  "LookerReport_eval_domain h r = eval_domain h r"

definition LookerOrderReport_eval_domain :: "host \<Rightarrow> order_report \<Rightarrow> exn + pyval" where
  "LookerOrderReport_eval_domain h r = eval_domain h r"


section \<open>\<open>LookerReport.get_chart_data\<close>\<close>

text \<open>
  The method is translated piece by piece, in the order of the source: the grouped
  aggregates, the time series, the body of the outer \<open>try\<close>, and the method with its
  handler. Every statement that can raise is a step of \<open>thenE\<close>; every inner
  \<open>try\<close> is a \<open>try_except\<close>. The calls of \<open>_logger.exception\<close> do not change the result
  and are left out, and the lookup of the source model in \<open>self.env\<close> is taken to
  succeed.
\<close>

subsection \<open>Grouped aggregates\<close>

record entry =
  e_gid :: pyval
  e_label :: string
  e_count :: int
  e_sum :: rat

text \<open>A \<open>for\<close> loop that appends one result per item and stops at the first exception.\<close>

fun mapE :: "('a \<Rightarrow> exn + 'b) \<Rightarrow> 'a list \<Rightarrow> exn + 'b list" where
  "mapE f [] = Inr []"
| "mapE f (x # xs) = thenE (f x) (\<lambda>y. thenE (mapE f xs) (\<lambda>ys. Inr (y # ys)))"

text \<open>The loop over \<open>grp_sum\<close>: \<open>sum_map[gid] = g.get(value_field) or 0.0\<close>, keyed by the
  group's id.\<close>

fun build_sum_map :: "string \<Rightarrow> string \<Rightarrow> group list \<Rightarrow> pyval pydict \<Rightarrow> exn + pyval pydict" where
  "build_sum_map gf vf [] m = Inr m"
| "build_sum_map gf vf (g # gs) m =
     thenE (first_or_self (g_get g gf)) (\<lambda>gid.
     thenE (dict_set m gid (py_or (g_get g vf) (PFloat 0))) (\<lambda>m'.
     build_sum_map gf vf gs m'))"

text \<open>One pass of the loop over \<open>groups\<close> that builds \<open>group_entries\<close>.\<close>

definition make_entry :: "host \<Rightarrow> string \<Rightarrow> string \<Rightarrow> pyval pydict \<Rightarrow> group \<Rightarrow> exn + entry" where
  "make_entry h gf vf sum_map g =
     (let key = g_get g gf in
      thenE (first_or_self key) (\<lambda>gid.
      let lbl = second_or_undefined key;
          cnt = g_get_count g
      in thenE (dict_get sum_map gid (if vf = [] then PInt cnt else PFloat 0)) (\<lambda>sval.
         thenE (py_float h sval) (\<lambda>s.
         Inr \<lparr>e_gid = gid, e_label = py_str h lbl, e_count = cnt, e_sum = s\<rparr>))))"

text \<open>\<open>int(self.limit) if getattr(self, 'limit', 0) and int(self.limit) > 0 else 0\<close>\<close>

definition limit_n :: "'a order_report_scheme \<Rightarrow> nat" where
  "limit_n r = (if limit r \<noteq> 0 \<and> 0 < limit r then nat (limit r) else 0)"

text \<open>\<open>sorted(xs, key=f, reverse=True)\<close>: descending, and stable (items with equal keys
  keep their order).\<close>

definition sorted_desc :: "('a \<Rightarrow> 'k::linorder) \<Rightarrow> 'a list \<Rightarrow> 'a list" where
  "sorted_desc f xs = rev (sort_key f (rev xs))"

text \<open>The Top-N cut: \<open>sort_key\<close> is \<open>'sum'\<close> when a value field is set, \<open>'count'\<close>
  otherwise.\<close>

definition apply_limit :: "nat \<Rightarrow> string \<Rightarrow> entry list \<Rightarrow> entry list" where
  "apply_limit n vf es =
     (if n \<noteq> 0 \<and> n < length es
      then take n (if vf \<noteq> [] then sorted_desc e_sum es else sorted_desc e_count es)
      else es)"

text \<open>The branch without a group field: one bucket \<open>'All'\<close>. Neither ORM call is
  guarded here.\<close>

definition ungrouped_part ::
  "host \<Rightarrow> string \<Rightarrow> string \<Rightarrow> pyval \<Rightarrow> exn + string list \<times> int list \<times> pyval list" where
  "ungrouped_part h model vf dmn =
     thenE (search_count h model dmn) (\<lambda>total.
       if vf \<noteq> []
       then thenE (read_group h model dmn [vf] []) (\<lambda>rows.
              let total_sum = (case rows of [] \<Rightarrow> PFloat 0 | g # gs \<Rightarrow> g_get g vf)
              in Inr ([''All''], [total], [py_or total_sum (PFloat 0)]))
       else Inr ([''All''], [total], [PInt total]))"

definition LookerReport_group_entries :: "host \<Rightarrow> report \<Rightarrow> pyval \<Rightarrow> exn + entry list" where
  "LookerReport_group_entries h r dmn =
     (let gf = group_field r; vf = value_field r;
          groups = try_except (read_group h ''crm.lead'' dmn [gf] [gf]) []
      in thenE (if vf \<noteq> []
                then build_sum_map gf vf (try_except (read_group h ''crm.lead'' dmn [gf, vf] [gf]) []) []
                else Inr [])
           (\<lambda>sum_map. mapE (make_entry h gf vf sum_map) groups))"

definition LookerReport_group_part ::
  "host \<Rightarrow> report \<Rightarrow> pyval \<Rightarrow> exn + string list \<times> int list \<times> pyval list" where
  "LookerReport_group_part h r dmn =
     (if group_field r \<noteq> []
      then thenE (LookerReport_group_entries h r dmn) (\<lambda>group_entries.
             let es = apply_limit (limit_n r) (value_field r) group_entries
             in Inr (map e_label es, map e_count es, map (\<lambda>e. PFloat (e_sum e)) es))
      else ungrouped_part h ''crm.lead'' (value_field r) dmn)"

subsection \<open>The time series of the last 14 days\<close>

definition today_dt :: "host \<Rightarrow> exn + int" where
  "today_dt h = (case context_today h of TodayStr s \<Rightarrow> strptime_ymd h s | TodayDate d \<Rightarrow> Inr d)"

definition N :: int where
  "N = 14"

text \<open>\<open>ts_domain = list(domain) + [('create_date', '>=', start_dt), ('create_date', '<', end_dt)]\<close>\<close>

definition ts_domain :: "host \<Rightarrow> int \<Rightarrow> pyval \<Rightarrow> exn + pyval list" where
  "ts_domain h today dmn =
     thenE (date_add today (- (N - 1))) (\<lambda>start.
     thenE (date_add today 1) (\<lambda>stop.
     thenE (py_list dmn) (\<lambda>items.
     Inr (items @
       [PTuple [PStr ''create_date'', PStr ''>='', PStr (strftime_ymd h start @ '' 00:00:00'')],
        PTuple [PStr ''create_date'', PStr ''<'', PStr (strftime_ymd h stop @ '' 00:00:00'')]]))))"

definition ts_groups :: "host \<Rightarrow> string \<Rightarrow> string \<Rightarrow> pyval list \<Rightarrow> group list" where
  "ts_groups h model vf tsd =
     try_except
       (if vf \<noteq> []
        then read_group h model (PList tsd) [''create_date'', vf] [''create_date:day'']
        else read_group h model (PList tsd) [''create_date''] [''create_date:day''])
       []"

text \<open>The loop filling \<open>ts_map\<close>, keyed by \<open>str(day)\<close>.\<close>

fun build_ts_map :: "host \<Rightarrow> string \<Rightarrow> group list \<Rightarrow> (string \<rightharpoonup> pyval) \<Rightarrow> exn + (string \<rightharpoonup> pyval)" where
  "build_ts_map h vf [] m = Inr m"
| "build_ts_map h vf (g # gs) m =
     thenE (first_or_self (g_get g ''create_date'')) (\<lambda>day.
     build_ts_map h vf gs
       (m(py_str h day \<mapsto> (if vf \<noteq> [] then py_or (g_get g vf) (PFloat 0) else PInt (g_get_count g)))))"

text \<open>\<open>success_dom\<close>: the evaluated success domain, \<open>[]\<close> when unset, false or not
  evaluable.\<close>

definition success_dom :: "host \<Rightarrow> report \<Rightarrow> pyval" where
  "success_dom h r =
     (if success_domain r \<noteq> []
      then try_except (thenE (safe_eval h (success_domain r)) (\<lambda>v. Inr (py_or v (PList [])))) (PList [])
      else PList [])"

text \<open>The guarded call for the success rows: \<open>list(success_dom)\<close> is evaluated inside
  the \<open>try\<close>.\<close>

definition ts_groups_success :: "host \<Rightarrow> pyval list \<Rightarrow> pyval \<Rightarrow> group list" where
  "ts_groups_success h tsd sd =
     try_except
       (thenE (py_list sd) (\<lambda>items.
          read_group h ''crm.lead'' (PList (tsd @ items)) [''create_date''] [''create_date:day'']))
       []"

fun build_ts_success_map :: "host \<Rightarrow> group list \<Rightarrow> (string \<rightharpoonup> int) \<Rightarrow> exn + (string \<rightharpoonup> int)" where
  "build_ts_success_map h [] m = Inr m"
| "build_ts_success_map h (g # gs) m =
     thenE (first_or_self (g_get g ''create_date'')) (\<lambda>day.
     build_ts_success_map h gs (m(py_str h day \<mapsto> g_get_count g)))"

text \<open>\<open>day_str\<close> for \<open>i\<close> in \<open>range(N)\<close>.\<close>

definition day_strs :: "host \<Rightarrow> int \<Rightarrow> string list" where
  "day_strs h today = map (\<lambda>i. strftime_ymd h (today - (N - 1 - int i))) [0..<nat N]"

text \<open>The percentage of one day, when a success domain is in effect.\<close>

definition success_percentage ::
  "host \<Rightarrow> (string \<rightharpoonup> pyval) \<Rightarrow> (string \<rightharpoonup> int) \<Rightarrow> string \<Rightarrow> exn + pyval" where
  "success_percentage h ts_map ts_success_map day_str =
     (let total = (case ts_map day_str of None \<Rightarrow> PInt 0 | Some v \<Rightarrow> v);
          succ = (case ts_success_map day_str of None \<Rightarrow> 0 | Some c \<Rightarrow> c)
      in thenE (if truthy total
                then thenE (py_float h (PInt succ)) (\<lambda>s.
                     thenE (py_float h total) (\<lambda>t.
                     if t = 0 then Inl ZeroDivisionError
                     else Inr (float_mul h (float_div h s t) 100)))
                else Inr 0)
           (\<lambda>perc. Inr (PFloat (round_float h perc 1))))"

text \<open>\<open>ts_map.get(day_str, 0 if not self.value_field else 0.0)\<close>\<close>

definition plain_line_value :: "string \<Rightarrow> (string \<rightharpoonup> pyval) \<Rightarrow> string \<Rightarrow> pyval" where
  "plain_line_value vf ts_map day_str =
     (case ts_map day_str of None \<Rightarrow> (if vf = [] then PInt 0 else PFloat 0) | Some v \<Rightarrow> v)"

definition LookerReport_line_part ::
  "host \<Rightarrow> report \<Rightarrow> pyval \<Rightarrow> exn + string list \<times> pyval list" where
  "LookerReport_line_part h r dmn =
     thenE (today_dt h) (\<lambda>today.
     thenE (ts_domain h today dmn) (\<lambda>tsd.
     let groups = ts_groups h ''crm.lead'' (value_field r) tsd;
         sd = success_dom h r
     in thenE (build_ts_map h (value_field r) groups Map.empty) (\<lambda>ts_map.
        thenE (if truthy sd
               then build_ts_success_map h (ts_groups_success h tsd sd) Map.empty
               else Inr Map.empty) (\<lambda>ts_success_map.
        thenE (mapE (\<lambda>day_str.
                 if truthy sd then success_percentage h ts_map ts_success_map day_str
                 else Inr (plain_line_value (value_field r) ts_map day_str))
               (day_strs h today)) (\<lambda>line_values.
        Inr (day_strs h today, line_values))))))"

text \<open>Everything inside the outer \<open>try\<close>.\<close>

definition LookerReport_body :: "host \<Rightarrow> report \<Rightarrow> pyval \<Rightarrow> exn + chart_data" where
  "LookerReport_body h r dmn =
     thenE (LookerReport_group_part h r dmn) (\<lambda>(ls, cs, ss).
     thenE (LookerReport_line_part h r dmn) (\<lambda>(ll, lv).
     Inr \<lparr>labels = ls, count_values = cs, sum_values = ss, line_labels = ll, line_values = lv\<rparr>))"

text \<open>\<open>self\<close> is a recordset; \<open>ensure_one\<close> raises unless it holds exactly one record.
  The outer handler replaces any exception of the body by the zeroed result.\<close>

definition LookerReport_get_chart_data :: "host \<Rightarrow> report list \<Rightarrow> exn + chart_data" where
  "LookerReport_get_chart_data h self =
     (case self of
        [r] \<Rightarrow> thenE (LookerReport_eval_domain h r) (\<lambda>dmn.
                 Inr (try_except (LookerReport_body h r dmn) zeroed))
      | _ \<Rightarrow> Inl ValueError)"


section \<open>\<open>LookerOrderReport.get_chart_data\<close>\<close>

subsection \<open>Weekday buckets\<close>

text \<open>The weekday of one order, or \<open>None\<close> when the loop skips it (\<open>continue\<close>): no
  \<open>date_order\<close>, or a string that \<open>strptime\<close> rejects.\<close>

definition row_weekday :: "host \<Rightarrow> order_row \<Rightarrow> nat option" where
  "row_weekday h r =
     (case date_order r of
        DFalse \<Rightarrow> None
      | DStr s \<Rightarrow>
          (if s = [] then None
           else (case strptime_ymd_hms h s of Inl e \<Rightarrow> None | Inr d \<Rightarrow> Some (weekday d)))
      | DDatetime d \<Rightarrow> Some (weekday d))"

text \<open>\<open>float(getattr(r, self.value_field) or 0.0)\<close>\<close>

definition row_value :: "host \<Rightarrow> string \<Rightarrow> order_row \<Rightarrow> exn + rat" where
  "row_value h vf r = thenE (row_getattr r vf) (\<lambda>v. py_float h (py_or v (PFloat 0)))"

text \<open>The loop over the orders. \<open>weekday_map\<close> and \<open>sum_map\<close> have the keys 0 to 6 and
  are held as lists of length 7; \<open>weekday\<close> is always below 7.\<close>

fun weekday_loop ::
  "host \<Rightarrow> string \<Rightarrow> order_row list \<Rightarrow> int list \<Rightarrow> rat list \<Rightarrow> exn + int list \<times> rat list" where
  "weekday_loop h vf [] weekday_map sum_map = Inr (weekday_map, sum_map)"
| "weekday_loop h vf (r # rs) weekday_map sum_map =
     (case row_weekday h r of
        None \<Rightarrow> weekday_loop h vf rs weekday_map sum_map
      | Some wd \<Rightarrow>
          (let weekday_map' = weekday_map[wd := weekday_map ! wd + 1]
           in if vf \<noteq> []
              then thenE (row_value h vf r) (\<lambda>x.
                     weekday_loop h vf rs weekday_map'
                       (sum_map[wd := float_add h (sum_map ! wd) x]))
              else weekday_loop h vf rs weekday_map' sum_map))"

definition days :: "string list" where
  "days =
     [''Th'' @ [CHR 0xE1, CHR 0xBB, CHR 0xA9] @ '' 2'',
      ''Th'' @ [CHR 0xE1, CHR 0xBB, CHR 0xA9] @ '' 3'',
      ''Th'' @ [CHR 0xE1, CHR 0xBB, CHR 0xA9] @ '' 4'',
      ''Th'' @ [CHR 0xE1, CHR 0xBB, CHR 0xA9] @ '' 5'',
      ''Th'' @ [CHR 0xE1, CHR 0xBB, CHR 0xA9] @ '' 6'',
      ''Th'' @ [CHR 0xE1, CHR 0xBB, CHR 0xA9] @ '' 7'',
      ''Ch'' @ [CHR 0xE1, CHR 0xBB, CHR 0xA7] @ '' Nh'' @ [CHR 0xE1, CHR 0xBA, CHR 0xAD] @ ''t'']"

definition weekday_part ::
  "host \<Rightarrow> order_report \<Rightarrow> pyval \<Rightarrow> exn + string list \<times> int list \<times> pyval list" where
  "weekday_part h r dmn =
     thenE (search_rows h dmn) (\<lambda>rows.
     thenE (weekday_loop h (value_field r) rows (replicate 7 0) (replicate 7 0))
       (\<lambda>(weekday_map, sum_map).
     Inr (map (\<lambda>i. days ! i) [0..<7],
          map (\<lambda>i. weekday_map ! i) [0..<7],
          map (\<lambda>i. PFloat (round_float h (sum_map ! i) 2)) [0..<7])))"

subsection \<open>Dotted relational group fields\<close>

text \<open>\<open>s.split('.')\<close>\<close>

fun split_on :: "char \<Rightarrow> string \<Rightarrow> string list" where
  "split_on c [] = [[]]"
| "split_on c (x # xs) =
     (if x = c then [] # split_on c xs
      else (case split_on c xs of [] \<Rightarrow> [[x]] | p # ps \<Rightarrow> (x # p) # ps))"

text \<open>\<open>rel_model\<close>: the relation of the top field when it is a many2one; empty when it
  is not, when there is no such field, or when the lookup raises.\<close>

definition rel_model_of :: "host \<Rightarrow> string \<Rightarrow> string" where
  "rel_model_of h top_field =
     try_except
       (thenE (ir_model_fields h ''sale.order'' (PStr top_field)) (\<lambda>f_top.
          Inr (case f_top of
                 None \<Rightarrow> []
               | Some f \<Rightarrow> if ttype f = ''many2one'' then relation f else [])))
       []"

text \<open>The guarded block that follows the relation: \<open>rel_id\<close> and \<open>rel_label\<close> of the
  target, or \<open>None\<close> and \<open>'Undefined'\<close> when the target is false or anything raises.\<close>

definition target_id_label :: "target \<Rightarrow> exn + pyval \<times> pyval" where
  "target_id_label t =
     (if t_truthy t
      then thenE (case t_id t of None \<Rightarrow> Inr (t_self t) | Some i \<Rightarrow> i) (\<lambda>rel_id.
           thenE (case t_name t of None \<Rightarrow> Inr (PStr (t_str t)) | Some n \<Rightarrow> n) (\<lambda>nm.
           Inr (rel_id, py_or nm (PStr ''Undefined''))))
      else Inr (PNone, PStr ''Undefined''))"

definition resolve_target :: "host \<Rightarrow> string \<Rightarrow> string option \<Rightarrow> pyval \<Rightarrow> pyval \<times> pyval" where
  "resolve_target h rel_model rel_field gid =
     try_except
       (thenE (case rel_field of None \<Rightarrow> Inl TypeError
               | Some f \<Rightarrow> browse_getattr h rel_model gid f) target_id_label)
       (PNone, PStr ''Undefined'')"

text \<open>\<open>rel_id\<close>, \<open>rel_label\<close> and \<open>rel_sum\<close> of one top-level group.\<close>

definition group_target ::
  "host \<Rightarrow> string \<Rightarrow> string option \<Rightarrow> pyval pydict \<Rightarrow> pyval \<Rightarrow> pyval \<Rightarrow> exn + pyval \<times> pyval \<times> pyval" where
  "group_target h rel_model rel_field sum_map_per_top key gid =
     (if \<not> truthy gid then Inr (PNone, PStr ''Undefined'', PFloat 0)
      else thenE (dict_get sum_map_per_top gid (PFloat 0)) (\<lambda>rel_sum.
           if rel_model \<noteq> []
           then (case resolve_target h rel_model rel_field gid of
                   (rel_id, rel_label) \<Rightarrow> Inr (rel_id, rel_label, rel_sum))
           else Inr (gid, second_or_undefined key, rel_sum)))"

text \<open>\<open>key in d\<close> and \<open>d[key]\<close> in one: the value under the key, if there is one.\<close>

definition dict_lookup :: "'v pydict \<Rightarrow> pyval \<Rightarrow> exn + 'v option" where
  "dict_lookup d k = (if hashable k then Inr (map_of d (key_of k)) else Inl TypeError)"

text \<open>The loop over \<open>groups\<close> that fills \<open>buckets\<close>; a bucket has the shape of an entry.\<close>

fun bucket_loop ::
  "host \<Rightarrow> string \<Rightarrow> string \<Rightarrow> string option \<Rightarrow> pyval pydict \<Rightarrow> group list \<Rightarrow> entry pydict
     \<Rightarrow> exn + entry pydict" where
  "bucket_loop h top_field rel_model rel_field sum_map_per_top [] buckets = Inr buckets"
| "bucket_loop h top_field rel_model rel_field sum_map_per_top (g # gs) buckets =
     (let key = g_get g top_field in
      thenE (first_or_self key) (\<lambda>gid.
      let cnt = g_get_count g in
      thenE (group_target h rel_model rel_field sum_map_per_top key gid)
        (\<lambda>(rel_id, rel_label, rel_sum).
      thenE (dict_lookup buckets rel_id) (\<lambda>found.
      let b = (case found of
                 None \<Rightarrow> \<lparr>e_gid = rel_id, e_label = py_str h rel_label, e_count = 0, e_sum = 0\<rparr>
               | Some b \<Rightarrow> b)
      in thenE (py_float h (py_or rel_sum (PFloat 0))) (\<lambda>s.
         bucket_loop h top_field rel_model rel_field sum_map_per_top gs
           (AList.update (key_of rel_id)
              (b\<lparr>e_count := e_count b + cnt, e_sum := float_add h (e_sum b) s\<rparr>)
              buckets))))))"

text \<open>\<open>top = parts[0]\<close> and \<open>rel_field = parts[1] if len(parts) > 1 else None\<close> of the
  split group field.\<close>

definition top_of :: "string \<Rightarrow> string" where
  "top_of gf = (case split_on (CHR ''.'') gf of [] \<Rightarrow> [] | p # ps \<Rightarrow> p)"

definition rel_field_of :: "string \<Rightarrow> string option" where
  "rel_field_of gf =
     (let parts = split_on (CHR ''.'') gf in if length parts > 1 then Some (parts ! 1) else None)"

text \<open>The guarded \<open>read_group\<close> by the top field, and \<open>sum_map_per_top\<close>.\<close>

definition top_groups :: "host \<Rightarrow> pyval \<Rightarrow> string \<Rightarrow> group list" where
  "top_groups h dmn top_field =
     try_except (read_group h ''sale.order'' dmn [top_field] [top_field]) []"

definition top_sum_map :: "host \<Rightarrow> string \<Rightarrow> pyval \<Rightarrow> string \<Rightarrow> exn + pyval pydict" where
  "top_sum_map h vf dmn top_field =
     (if vf \<noteq> []
      then build_sum_map top_field vf
             (try_except (read_group h ''sale.order'' dmn [top_field, vf] [top_field]) []) []
      else Inr [])"

definition dotted_group_entries :: "host \<Rightarrow> order_report \<Rightarrow> pyval \<Rightarrow> exn + entry list" where
  "dotted_group_entries h r dmn =
     (let top_field = top_of (group_field r);
          rel_field = rel_field_of (group_field r)
      in thenE (top_sum_map h (value_field r) dmn top_field) (\<lambda>sum_map_per_top.
         thenE (bucket_loop h top_field (rel_model_of h top_field) rel_field sum_map_per_top
                  (top_groups h dmn top_field) [])
           (\<lambda>buckets. Inr (map snd buckets))))"

definition dotted_part ::
  "host \<Rightarrow> order_report \<Rightarrow> pyval \<Rightarrow> exn + string list \<times> int list \<times> pyval list" where
  "dotted_part h r dmn =
     thenE (dotted_group_entries h r dmn) (\<lambda>group_entries.
       let es = apply_limit (limit_n r) (value_field r) group_entries
       in Inr (map e_label es, map e_count es, map (\<lambda>e. PFloat (e_sum e)) es))"

subsection \<open>Plain group fields\<close>

text \<open>One pass of the loop of the plain branch: no entry list and no limit here, the
  three output lists grow directly; the sum is \<open>float(sval or 0.0)\<close>.\<close>

definition plain_group_row ::
  "host \<Rightarrow> string \<Rightarrow> string \<Rightarrow> pyval pydict \<Rightarrow> group \<Rightarrow> exn + string \<times> int \<times> pyval" where
  "plain_group_row h gf vf sum_map g =
     (let key = g_get g gf in
      thenE (first_or_self key) (\<lambda>gid.
      let lbl = second_or_undefined key;
          cnt = g_get_count g
      in thenE (dict_get sum_map gid (if vf = [] then PInt cnt else PFloat 0)) (\<lambda>sval.
         thenE (py_float h (py_or sval (PFloat 0))) (\<lambda>s.
         Inr (py_str h lbl, cnt, PFloat s)))))"

definition plain_part ::
  "host \<Rightarrow> order_report \<Rightarrow> pyval \<Rightarrow> exn + string list \<times> int list \<times> pyval list" where
  "plain_part h r dmn =
     (let gf = group_field r; vf = value_field r;
          groups = try_except (read_group h ''sale.order'' dmn [gf] [gf]) []
      in thenE (if vf \<noteq> []
                then build_sum_map gf vf (try_except (read_group h ''sale.order'' dmn [gf, vf] [gf]) []) []
                else Inr [])
           (\<lambda>sum_map.
         thenE (mapE (plain_group_row h gf vf sum_map) groups) (\<lambda>rows.
         Inr (map fst rows, map (\<lambda>x. fst (snd x)) rows, map (\<lambda>x. snd (snd x)) rows))))"

subsection \<open>The whole method\<close>

definition LookerOrderReport_group_part ::
  "host \<Rightarrow> order_report \<Rightarrow> pyval \<Rightarrow> exn + string list \<times> int list \<times> pyval list" where
  "LookerOrderReport_group_part h r dmn =
     (if group_field r = ''date_order_weekday'' then weekday_part h r dmn
      else if group_field r \<noteq> [] \<and> CHR ''.'' \<in> set (group_field r) then dotted_part h r dmn
      else if group_field r \<noteq> [] then plain_part h r dmn
      else ungrouped_part h ''sale.order'' (value_field r) dmn)"

definition LookerOrderReport_line_part ::
  "host \<Rightarrow> order_report \<Rightarrow> pyval \<Rightarrow> exn + string list \<times> pyval list" where
  "LookerOrderReport_line_part h r dmn =
     thenE (today_dt h) (\<lambda>today.
     thenE (ts_domain h today dmn) (\<lambda>tsd.
     thenE (build_ts_map h (value_field r) (ts_groups h ''sale.order'' (value_field r) tsd) Map.empty)
       (\<lambda>ts_map.
     Inr (day_strs h today, map (plain_line_value (value_field r) ts_map) (day_strs h today)))))"

definition LookerOrderReport_body :: "host \<Rightarrow> order_report \<Rightarrow> pyval \<Rightarrow> exn + chart_data" where
  "LookerOrderReport_body h r dmn =
     thenE (LookerOrderReport_group_part h r dmn) (\<lambda>(ls, cs, ss).
     thenE (LookerOrderReport_line_part h r dmn) (\<lambda>(ll, lv).
     Inr \<lparr>labels = ls, count_values = cs, sum_values = ss, line_labels = ll, line_values = lv\<rparr>))"

definition LookerOrderReport_get_chart_data :: "host \<Rightarrow> order_report list \<Rightarrow> exn + chart_data" where
  "LookerOrderReport_get_chart_data h self =
     (case self of
        [r] \<Rightarrow> thenE (LookerOrderReport_eval_domain h r) (\<lambda>dmn.
                 Inr (try_except (LookerOrderReport_body h r dmn) zeroed))
      | _ \<Rightarrow> Inl ValueError)"


section \<open>Saving reports: \<open>create\<close>, \<open>write\<close> and the generated descriptions\<close>

text \<open>A \<open>vals\<close> dict, and the stored records by id. A field that a stored record does
  not hold reads as \<open>False\<close>.\<close>

type_synonym vals = "string \<rightharpoonup> pyval"
type_synonym store = "nat \<rightharpoonup> vals"

text \<open>\<open>vals.get(name)\<close>\<close>

definition vals_get :: "vals \<Rightarrow> string \<Rightarrow> pyval" where
  "vals_get v name = (case v name of None \<Rightarrow> PNone | Some x \<Rightarrow> x)"

definition rec_field :: "store \<Rightarrow> nat \<Rightarrow> string \<Rightarrow> pyval" where
  "rec_field st i name =
     (case st i of
        None \<Rightarrow> PBool False
      | Some r \<Rightarrow> (case r name of None \<Rightarrow> PBool False | Some x \<Rightarrow> x))"

text \<open>\<open>if not x and len(self) == 1 and self.exists(): x = self.<name> or x\<close>\<close>

definition record_fallback :: "store \<Rightarrow> nat list \<Rightarrow> string \<Rightarrow> pyval \<Rightarrow> pyval" where
  "record_fallback st self name x =
     (if truthy x then x
      else (case self of
              [i] \<Rightarrow> (case st i of None \<Rightarrow> x | Some r \<Rightarrow> py_or (rec_field st i name) x)
            | _ \<Rightarrow> x))"

text \<open>\<open>(pre + '%s' + post) % x\<close> with a bare right operand: a tuple is taken as the
  argument list, and only a tuple of length one fits the single \<open>%s\<close>.\<close>

definition fmt1 :: "host \<Rightarrow> string \<Rightarrow> pyval \<Rightarrow> string \<Rightarrow> exn + string" where
  "fmt1 h pre x post =
     (case x of
        PTuple xs \<Rightarrow> (case xs of [a] \<Rightarrow> Inr (pre @ py_str h a @ post) | _ \<Rightarrow> Inl TypeError)
      | _ \<Rightarrow> Inr (pre @ py_str h x @ post))"

text \<open>The texts of the templates (UTF-8).\<close>

definition txt_filtered :: string where
  "txt_filtered = '' (c'' @ [CHR 0xC3, CHR 0xB3] @ '' '' @ [CHR 0xC3, CHR 0xA1] @ ''p d'' @ [CHR 0xE1, CHR 0xBB, CHR 0xA5] @ ''ng b'' @ [CHR 0xE1, CHR 0xBB, CHR 0x99] @ '' l'' @ [CHR 0xE1, CHR 0xBB, CHR 0x8D] @ ''c)''"

definition txt_total :: string where
  "txt_total = ''T'' @ [CHR 0xE1, CHR 0xBB, CHR 0x95] @ ''ng ''"

definition txt_by :: string where
  "txt_by = '' theo ''"

definition txt_by_category :: string where
  "txt_by_category = ''Gi'' @ [CHR 0xC3, CHR 0xA1] @ '' tr'' @ [CHR 0xE1, CHR 0xBB, CHR 0x8B] @ '' theo danh m'' @ [CHR 0xE1, CHR 0xBB, CHR 0xA5] @ ''c.''"

definition txt_trend_total :: string where
  "txt_trend_total = ''Xu h'' @ [CHR 0xC6, CHR 0xB0, CHR 0xE1, CHR 0xBB, CHR 0x9B] @ ''ng t'' @ [CHR 0xE1, CHR 0xBB, CHR 0x95] @ ''ng ''"

definition txt_daily_14 :: string where
  "txt_daily_14 = '' theo ng'' @ [CHR 0xC3, CHR 0xA0] @ ''y trong 14 ng'' @ [CHR 0xC3, CHR 0xA0] @ ''y g'' @ [CHR 0xE1, CHR 0xBA, CHR 0xA7] @ ''n nh'' @ [CHR 0xE1, CHR 0xBA, CHR 0xA5] @ ''t''"

definition txt_crm_pie_by :: string where
  "txt_crm_pie_by = ''Ph'' @ [CHR 0xC3, CHR 0xA2] @ ''n b'' @ [CHR 0xE1, CHR 0xBB, CHR 0x91] @ '' kh'' @ [CHR 0xC3, CHR 0xA1] @ ''ch h'' @ [CHR 0xC3, CHR 0xA0] @ ''ng ti'' @ [CHR 0xE1, CHR 0xBB, CHR 0x81] @ ''m n'' @ [CHR 0xC4, CHR 0x83] @ ''ng theo ''"

definition txt_crm_pie :: string where
  "txt_crm_pie = ''Ph'' @ [CHR 0xC3, CHR 0xA2] @ ''n b'' @ [CHR 0xE1, CHR 0xBB, CHR 0x91] @ '' kh'' @ [CHR 0xC3, CHR 0xA1] @ ''ch h'' @ [CHR 0xC3, CHR 0xA0] @ ''ng ti'' @ [CHR 0xE1, CHR 0xBB, CHR 0x81] @ ''m n'' @ [CHR 0xC4, CHR 0x83] @ ''ng.''"

definition txt_crm_count_by :: string where
  "txt_crm_count_by = ''S'' @ [CHR 0xE1, CHR 0xBB, CHR 0x91] @ '' l'' @ [CHR 0xC6, CHR 0xB0, CHR 0xE1, CHR 0xBB, CHR 0xA3] @ ''ng kh'' @ [CHR 0xC3, CHR 0xA1] @ ''ch h'' @ [CHR 0xC3, CHR 0xA0] @ ''ng ti'' @ [CHR 0xE1, CHR 0xBB, CHR 0x81] @ ''m n'' @ [CHR 0xC4, CHR 0x83] @ ''ng theo ''"

definition txt_crm_trend_count :: string where
  "txt_crm_trend_count = ''Xu h'' @ [CHR 0xC6, CHR 0xB0, CHR 0xE1, CHR 0xBB, CHR 0x9B] @ ''ng s'' @ [CHR 0xE1, CHR 0xBB, CHR 0x91] @ '' l'' @ [CHR 0xC6, CHR 0xB0, CHR 0xE1, CHR 0xBB, CHR 0xA3] @ ''ng kh'' @ [CHR 0xC3, CHR 0xA1] @ ''ch h'' @ [CHR 0xC3, CHR 0xA0] @ ''ng ti'' @ [CHR 0xE1, CHR 0xBB, CHR 0x81] @ ''m n'' @ [CHR 0xC4, CHR 0x83] @ ''ng trong 14 ng'' @ [CHR 0xC3, CHR 0xA0] @ ''y g'' @ [CHR 0xE1, CHR 0xBA, CHR 0xA7] @ ''n nh'' @ [CHR 0xE1, CHR 0xBA, CHR 0xA5] @ ''t''"

definition txt_order_pie_by :: string where
  "txt_order_pie_by = ''Ph'' @ [CHR 0xC3, CHR 0xA2] @ ''n b'' @ [CHR 0xE1, CHR 0xBB, CHR 0x91] @ '' '' @ [CHR 0xC4, CHR 0x91, CHR 0xC6, CHR 0xA1] @ ''n h'' @ [CHR 0xC3, CHR 0xA0] @ ''ng theo ''"

definition txt_order_pie :: string where
  "txt_order_pie = ''Ph'' @ [CHR 0xC3, CHR 0xA2] @ ''n b'' @ [CHR 0xE1, CHR 0xBB, CHR 0x91] @ '' '' @ [CHR 0xC4, CHR 0x91, CHR 0xC6, CHR 0xA1] @ ''n h'' @ [CHR 0xC3, CHR 0xA0] @ ''ng.''"

definition txt_order_count_by :: string where
  "txt_order_count_by = ''S'' @ [CHR 0xE1, CHR 0xBB, CHR 0x91] @ '' l'' @ [CHR 0xC6, CHR 0xB0, CHR 0xE1, CHR 0xBB, CHR 0xA3] @ ''ng '' @ [CHR 0xC4, CHR 0x91, CHR 0xC6, CHR 0xA1] @ ''n h'' @ [CHR 0xC3, CHR 0xA0] @ ''ng theo ''"

definition txt_order_trend_count :: string where
  "txt_order_trend_count = ''Xu h'' @ [CHR 0xC6, CHR 0xB0, CHR 0xE1, CHR 0xBB, CHR 0x9B] @ ''ng s'' @ [CHR 0xE1, CHR 0xBB, CHR 0x91] @ '' l'' @ [CHR 0xC6, CHR 0xB0, CHR 0xE1, CHR 0xBB, CHR 0xA3] @ ''ng '' @ [CHR 0xC4, CHR 0x91, CHR 0xC6, CHR 0xA1] @ ''n h'' @ [CHR 0xC3, CHR 0xA0] @ ''ng trong 14 ng'' @ [CHR 0xC3, CHR 0xA0] @ ''y g'' @ [CHR 0xE1, CHR 0xBA, CHR 0xA7] @ ''n nh'' @ [CHR 0xE1, CHR 0xBA, CHR 0xA5] @ ''t''"

text \<open>\<open>f.field_description if f and f.field_description else fallback\<close>\<close>

definition description_or :: "field_info option \<Rightarrow> pyval \<Rightarrow> pyval" where
  "description_or f fallback =
     (case f of
        None \<Rightarrow> fallback
      | Some fi \<Rightarrow> if field_description fi \<noteq> [] then PStr (field_description fi) else fallback)"

subsection \<open>\<open>LookerReport\<close>\<close>

text \<open>The local function \<open>label\<close> of \<open>_ensure_auto_descriptions\<close>.\<close>

definition label :: "host \<Rightarrow> pyval \<Rightarrow> exn + pyval" where
  "label h field =
     (if \<not> truthy field then Inr (PStr [])
      else thenE (ir_model_fields h ''crm.lead'' field) (\<lambda>f. Inr (description_or f field)))"

definition crm_pie :: "host \<Rightarrow> pyval \<Rightarrow> exn + string" where
  "crm_pie h gf =
     (if truthy gf then thenE (label h gf) (\<lambda>l. fmt1 h txt_crm_pie_by l ''.'')
      else Inr txt_crm_pie)"

definition crm_bar :: "host \<Rightarrow> pyval \<Rightarrow> pyval \<Rightarrow> exn + string" where
  "crm_bar h gf vf =
     (if truthy gf \<and> truthy vf
      then thenE (label h vf) (\<lambda>lv. thenE (label h gf) (\<lambda>lg.
             Inr (txt_total @ py_str h lv @ txt_by @ py_str h lg @ ''.'')))
      else if truthy gf then thenE (label h gf) (\<lambda>l. fmt1 h txt_crm_count_by l ''.'')
      else Inr txt_by_category)"

definition crm_line :: "host \<Rightarrow> pyval \<Rightarrow> pyval \<Rightarrow> exn + string" where
  "crm_line h vf dmn =
     (if truthy vf
      then thenE (label h vf) (\<lambda>lv.
             Inr (txt_trend_total @ py_str h lv @ txt_daily_14
                  @ (if truthy dmn then txt_filtered else []) @ ''.''))
      else Inr (txt_crm_trend_count @ (if truthy dmn then txt_filtered else []) @ ''.''))"

text \<open>\<open>if key not in vals: vals[key] = text\<close>\<close>

definition set_if_absent :: "string \<Rightarrow> string \<Rightarrow> vals \<Rightarrow> vals" where
  "set_if_absent key text v = (case v key of None \<Rightarrow> v(key \<mapsto> PStr text) | Some x \<Rightarrow> v)"

definition LookerReport_ensure_auto_descriptions ::
  "host \<Rightarrow> store \<Rightarrow> nat list \<Rightarrow> vals \<Rightarrow> exn + vals" where
  "LookerReport_ensure_auto_descriptions h st self v =
     (let gf = record_fallback st self ''group_field'' (vals_get v ''group_field'');
          vf = record_fallback st self ''value_field'' (vals_get v ''value_field'');
          dmn = record_fallback st self ''domain'' (vals_get v ''domain'')
      in thenE (crm_pie h gf) (\<lambda>pie.
         thenE (crm_bar h gf vf) (\<lambda>bar.
         thenE (crm_line h vf dmn) (\<lambda>line.
         Inr (set_if_absent ''line_description'' line
               (set_if_absent ''bar_description'' bar
                 (set_if_absent ''pie_description'' pie v)))))))"

subsection \<open>\<open>LookerOrderReport\<close>\<close>

text \<open>\<open>s.replace('_', ' ')\<close>\<close>

definition replace_underscores :: "string \<Rightarrow> string" where
  "replace_underscores s = map (\<lambda>c. if c = CHR ''_'' then CHR '' '' else c) s"

definition order_field_label :: "host \<Rightarrow> pyval \<Rightarrow> exn + pyval" where
  "order_field_label h field_name =
     (if \<not> truthy field_name then Inr (PStr [])
      else (case field_name of
              PStr s \<Rightarrow>
                (if CHR ''.'' \<in> set s
                 then (let parts = split_on (CHR ''.'') s;
                           top_field = (case parts of [] \<Rightarrow> [] | p # ps \<Rightarrow> p);
                           sub = (if length parts > 1 then parts ! 1 else [])
                       in thenE (ir_model_fields h ''sale.order'' (PStr top_field)) (\<lambda>f_top.
                          let top_label = description_or f_top (PStr top_field)
                          in (case f_top of
                                None \<Rightarrow> Inr (PStr (replace_underscores s))
                              | Some ft \<Rightarrow>
                                  (if sub \<noteq> [] \<and> ttype ft = ''many2one'' \<and> relation ft \<noteq> []
                                   then thenE (ir_model_fields h (relation ft) (PStr sub)) (\<lambda>f_sub.
                                          let sub_label = description_or f_sub (PStr sub)
                                          in Inr (PStr (py_str h sub_label @ '' ('' @ py_str h top_label @ '')'')))
                                   else Inr (PStr (replace_underscores s))))))
                 else thenE (ir_model_fields h ''sale.order'' field_name) (\<lambda>f.
                        Inr (description_or f (py_or field_name (PStr [])))))
            | _ \<Rightarrow> thenE (ir_model_fields h ''sale.order'' field_name) (\<lambda>f.
                     Inr (description_or f (py_or field_name (PStr []))))))"

definition order_pie :: "host \<Rightarrow> pyval \<Rightarrow> exn + string" where
  "order_pie h gf =
     (if truthy gf then thenE (order_field_label h gf) (\<lambda>l. fmt1 h txt_order_pie_by l ''.'')
      else Inr txt_order_pie)"

definition order_bar :: "host \<Rightarrow> pyval \<Rightarrow> pyval \<Rightarrow> exn + string" where
  "order_bar h gf vf =
     (if truthy gf \<and> truthy vf
      then thenE (order_field_label h vf) (\<lambda>lv. thenE (order_field_label h gf) (\<lambda>lg.
             Inr (txt_total @ py_str h lv @ txt_by @ py_str h lg @ ''.'')))
      else if truthy gf
      then thenE (order_field_label h gf) (\<lambda>l. fmt1 h txt_order_count_by l ''.'')
      else Inr txt_by_category)"

definition order_line :: "host \<Rightarrow> pyval \<Rightarrow> pyval \<Rightarrow> exn + string" where
  "order_line h vf dmn =
     (if truthy vf
      then thenE (order_field_label h vf) (\<lambda>lv.
             Inr (txt_trend_total @ py_str h lv @ txt_daily_14
                  @ (if truthy dmn then txt_filtered else []) @ ''.''))
      else Inr (txt_order_trend_count @ (if truthy dmn then txt_filtered else []) @ ''.''))"

definition LookerOrderReport_ensure_auto_descriptions ::
  "host \<Rightarrow> store \<Rightarrow> nat list \<Rightarrow> vals \<Rightarrow> exn + vals" where
  "LookerOrderReport_ensure_auto_descriptions h st self v =
     (let gf = record_fallback st self ''group_field'' (vals_get v ''group_field'');
          vf = record_fallback st self ''value_field'' (vals_get v ''value_field'');
          dmn = record_fallback st self ''domain'' (vals_get v ''domain'')
      in thenE (order_pie h gf) (\<lambda>pie.
         thenE (order_bar h gf vf) (\<lambda>bar.
         thenE (order_line h vf dmn) (\<lambda>line.
         Inr (set_if_absent ''line_description'' line
               (set_if_absent ''bar_description'' bar
                 (set_if_absent ''pie_description'' pie v)))))))"

subsection \<open>\<open>create\<close> and \<open>write\<close>\<close>

text \<open>The argument of \<open>create\<close> is one dict or a list of dicts; \<open>write\<close> fills in
  descriptions only when it is given a dict. The inherited \<open>create\<close> and \<open>write\<close> of
  the ORM do the saving.\<close>

datatype create_arg = ValsDict vals | ValsList "vals list"

datatype write_arg = WriteDict vals | WriteOther pyval

record persistence =
  orm_create :: "store \<Rightarrow> create_arg \<Rightarrow> exn + store \<times> nat list"
  orm_write :: "store \<Rightarrow> nat list \<Rightarrow> write_arg \<Rightarrow> exn + store"

text \<open>The local function \<open>ensure_and_validate\<close> of \<open>create\<close>.\<close>

definition ensure_and_validate ::
  "(vals \<Rightarrow> exn + vals) \<Rightarrow> vals \<Rightarrow> exn + vals" where
  "ensure_and_validate ensure v =
     (if \<not> truthy (vals_get v ''group_field'') \<or> \<not> truthy (vals_get v ''value_field'')
      then Inl UserError
      else ensure v)"

definition LookerReport_create ::
  "persistence \<Rightarrow> host \<Rightarrow> store \<Rightarrow> nat list \<Rightarrow> create_arg \<Rightarrow> exn + store \<times> nat list" where
  "LookerReport_create p h st self arg =
     (case arg of
        ValsList vs \<Rightarrow>
          thenE (mapE (ensure_and_validate (LookerReport_ensure_auto_descriptions h st self)) vs)
            (\<lambda>vs'. orm_create p st (ValsList vs'))
      | ValsDict v \<Rightarrow>
          thenE (ensure_and_validate (LookerReport_ensure_auto_descriptions h st self) v)
            (\<lambda>v'. orm_create p st (ValsDict v')))"

definition LookerReport_write ::
  "persistence \<Rightarrow> host \<Rightarrow> store \<Rightarrow> nat list \<Rightarrow> write_arg \<Rightarrow> exn + store" where
  "LookerReport_write p h st self arg =
     (case arg of
        WriteDict v \<Rightarrow>
          thenE (LookerReport_ensure_auto_descriptions h st self v)
            (\<lambda>v'. orm_write p st self (WriteDict v'))
      | WriteOther x \<Rightarrow> orm_write p st self (WriteOther x))"

definition LookerOrderReport_create ::
  "persistence \<Rightarrow> host \<Rightarrow> store \<Rightarrow> nat list \<Rightarrow> create_arg \<Rightarrow> exn + store \<times> nat list" where
  "LookerOrderReport_create p h st self arg =
     (case arg of
        ValsList vs \<Rightarrow>
          thenE (mapE (ensure_and_validate (LookerOrderReport_ensure_auto_descriptions h st self)) vs)
            (\<lambda>vs'. orm_create p st (ValsList vs'))
      | ValsDict v \<Rightarrow>
          thenE (ensure_and_validate (LookerOrderReport_ensure_auto_descriptions h st self) v)
            (\<lambda>v'. orm_create p st (ValsDict v')))"

definition LookerOrderReport_write ::
  "persistence \<Rightarrow> host \<Rightarrow> store \<Rightarrow> nat list \<Rightarrow> write_arg \<Rightarrow> exn + store" where
  "LookerOrderReport_write p h st self arg =
     (case arg of
        WriteDict v \<Rightarrow>
          thenE (LookerOrderReport_ensure_auto_descriptions h st self v)
            (\<lambda>v'. orm_write p st self (WriteDict v'))
      | WriteOther x \<Rightarrow> orm_write p st self (WriteOther x))"


section \<open>Auxiliary notions and example hosts\<close>

text \<open>The shape every result has: the three group lists are equally long, and so are the
  two line lists.\<close>

definition shaped :: "chart_data \<Rightarrow> bool" where
  "shaped d \<longleftrightarrow> length (labels d) = length (count_values d) \<and> length (count_values d) = length (sum_values d) \<and> length (line_labels d) = length (line_values d)"

text \<open>A host with an empty database on 2026-11-03 (ordinal 739923), whose \<open>strftime\<close> is
  tabulated for the days around it. It evaluates three domain texts, and it computes
  with exact decimals. All example hosts are variants of it.\<close>

definition strftime_table :: "int \<Rightarrow> string" where
  "strftime_table d =
     (if d = 739910 then ''2026-10-21'' else if d = 739911 then ''2026-10-22''
      else if d = 739912 then ''2026-10-23'' else if d = 739913 then ''2026-10-24''
      else if d = 739914 then ''2026-10-25'' else if d = 739915 then ''2026-10-26''
      else if d = 739916 then ''2026-10-27'' else if d = 739917 then ''2026-10-28''
      else if d = 739918 then ''2026-10-29'' else if d = 739919 then ''2026-10-30''
      else if d = 739920 then ''2026-10-31'' else if d = 739921 then ''2026-11-01''
      else if d = 739922 then ''2026-11-02'' else if d = 739923 then ''2026-11-03''
      else if d = 739924 then ''2026-11-04'' else ''0001-01-01'')"

definition won_text :: string where
  "won_text = ''[('' @ [CHR 0x27] @ ''stage_id'' @ [CHR 0x27] @ '', '' @ [CHR 0x27] @ ''='' @ [CHR 0x27] @ '', 4)]''"

definition quiet_host :: host where
  "quiet_host =
     \<lparr>safe_eval = (\<lambda>s. if s = ''[]'' then Inr (PList [])
                       else if s = ''5'' then Inr (PInt 5)
                       else if s = won_text then Inr (PList [PTuple [PStr ''stage_id'', PStr ''='', PInt 4]])
                       else Inl ValueError),
      read_group = (\<lambda>model dmn fs groupby. Inr []),
      search_count = (\<lambda>model dmn. Inr 0),
      search_rows = (\<lambda>dmn. Inr []),
      ir_model_fields = (\<lambda>model name. Inr None),
      browse_getattr = (\<lambda>model gid name. Inl HostError),
      context_today = TodayDate 739923,
      strptime_ymd = (\<lambda>s. Inl ValueError),
      strptime_ymd_hms = (\<lambda>s. Inl ValueError),
      strftime_ymd = strftime_table,
      repr_of = (\<lambda>v. ''?''),
      float_of_str = (\<lambda>s. Inl ValueError),
      float_of_int = (\<lambda>i. Inr (of_int i)),
      float_add = (\<lambda>x y. x + y),
      float_mul = (\<lambda>x y. x * y),
      float_div = (\<lambda>x y. x / y),
      float_round = py_round\<rparr>"

definition blank_order_report :: order_report where
  "blank_order_report = \<lparr>domain = [], group_field = [], value_field = [], limit = 1000\<rparr>"

definition blank_report :: report where
  "blank_report = \<lparr>domain = [], group_field = [], value_field = [], limit = 1000, success_domain = []\<rparr>"

text \<open>The same host with a failing \<open>search_count\<close>.\<close>

definition failing_host :: host where
  "failing_host = quiet_host\<lparr>search_count := (\<lambda>model dmn. Inl HostError)\<rparr>"

text \<open>No row of a time-series result is keyed by the day \<open>day_str\<close>.\<close>

definition no_row_for :: "host \<Rightarrow> group list \<Rightarrow> string \<Rightarrow> bool" where
  "no_row_for h gs day_str =
     list_all (\<lambda>g. case first_or_self (g_get g ''create_date'') of
                      Inl e \<Rightarrow> True
                    | Inr day \<Rightarrow> py_str h day \<noteq> day_str) gs"

text \<open>A CRM report with a success domain and nothing else; an order report with a
  value field; the days of the window ending on 2026-11-03.\<close>

definition percent_report :: report where
  "percent_report = blank_report\<lparr>success_domain := won_text\<rparr>"

definition october_days :: "string list" where
  "october_days =
     [''2026-10-21'', ''2026-10-22'', ''2026-10-23'', ''2026-10-24'', ''2026-10-25'',
      ''2026-10-26'', ''2026-10-27'', ''2026-10-28'', ''2026-10-29'', ''2026-10-30'',
      ''2026-10-31'', ''2026-11-01'', ''2026-11-02'', ''2026-11-03'']"

definition last_14_days_domain :: "pyval list" where
  "last_14_days_domain =
     [PTuple [PStr ''create_date'', PStr ''>='', PStr ''2026-10-21 00:00:00''],
      PTuple [PStr ''create_date'', PStr ''<'', PStr ''2026-11-04 00:00:00'']]"

definition amount_order_report :: order_report where
  "amount_order_report = blank_order_report\<lparr>value_field := ''amount_total''\<rparr>"

text \<open>A host with two leads created on 2026-11-03, revenue 1000 in sum, one of them
  matching the success domain. It tells the time-series call with the success domain
  from the one without by the length of the domain.\<close>

definition day_row :: group where
  "day_row = \<lparr>g_count = Some 2,
               g_vals = [''create_date'' \<mapsto> PStr ''2026-11-03'', ''expected_revenue'' \<mapsto> PFloat 1000]\<rparr>"

definition won_row :: group where
  "won_row = \<lparr>g_count = Some 1, g_vals = [''create_date'' \<mapsto> PStr ''2026-11-03'']\<rparr>"

definition revenue_host :: host where
  "revenue_host = quiet_host
     \<lparr>read_group := (\<lambda>model dmn fs groupby.
        if groupby = [''create_date:day'']
        then (case dmn of PList xs \<Rightarrow> Inr [if length xs = 3 then won_row else day_row]
              | _ \<Rightarrow> Inr [])
        else if groupby = [] then Inr [day_row] else Inr []),
      search_count := (\<lambda>model dmn. Inr 2)\<rparr>"




























text \<open>The three keys that \<open>_ensure_auto_descriptions\<close> may add.\<close>

definition description_keys :: "string set" where
  "description_keys = {''pie_description'', ''bar_description'', ''line_description''}"

text \<open>The values of a CRM report that brings its own bar description, a store that holds
  it as record 1, and an ORM whose \<open>write\<close> overwrites the given fields of the records of
  \<open>self\<close> and whose \<open>create\<close> stores one dict as record 2.\<close>

definition lead_vals :: vals where
  "lead_vals = [''name'' \<mapsto> PStr ''Leads by stage'', ''group_field'' \<mapsto> PStr ''stage_id'',
                ''value_field'' \<mapsto> PStr ''expected_revenue'', ''bar_description'' \<mapsto> PStr ''mine'']"

definition one_report :: store where
  "one_report = [1 \<mapsto> lead_vals]"

definition plain_orm :: persistence where
  "plain_orm =
     \<lparr>orm_create = (\<lambda>st arg.
        case arg of
          ValsDict v \<Rightarrow> Inr (st(2 \<mapsto> v), [2])
        | ValsList vs \<Rightarrow> Inl HostError),
      orm_write = (\<lambda>st self arg.
        case arg of
          WriteDict v \<Rightarrow>
            Inr (\<lambda>i. if i \<in> set self then map_option (\<lambda>r. r ++ v) (st i) else st i)
        | WriteOther x \<Rightarrow> Inl TypeError)\<rparr>"

text \<open>\<open>v'\<close> is what \<open>ensure\<close> makes of \<open>v\<close>.\<close>

definition filled_by :: "(vals \<Rightarrow> exn + vals) \<Rightarrow> vals \<Rightarrow> vals \<Rightarrow> bool" where
  "filled_by ensure v v' \<longleftrightarrow> ensure v = Inr v'"

text \<open>
  The generated descriptions, stated apart from \<open>_ensure_auto_descriptions\<close>: what a
  description is derived from, how a field is named in it, and the sentences themselves,
  put together from their Vietnamese words. The definitions with the prefix \<open>spec_\<close> say
  what is expected; the theorems compare the code with them.
\<close>

text \<open>The value a description is derived from, for one of the names \<open>group_field\<close>,
  \<open>value_field\<close>, \<open>domain\<close>: the entry of \<open>vals\<close> when it is truthy; otherwise the stored
  value when \<open>self\<close> is one existing record and that value is truthy; otherwise the entry
  of \<open>vals\<close> as it is (\<open>None\<close> when the key is absent).\<close>

definition spec_derived_from :: "store \<Rightarrow> nat list \<Rightarrow> vals \<Rightarrow> string \<Rightarrow> pyval" where
  "spec_derived_from st self v name =
     (let given = (case v name of None \<Rightarrow> PNone | Some x \<Rightarrow> x);
          stored = (case self of
                      [i] \<Rightarrow> (case st i of
                               None \<Rightarrow> PBool False
                             | Some r \<Rightarrow> (case r name of None \<Rightarrow> PBool False | Some y \<Rightarrow> y))
                    | _ \<Rightarrow> PBool False)
      in if truthy given then given else if truthy stored then stored else given)"

text \<open>How a field of a model is named: by its description in the field table of the model
  when it has a non-empty one, otherwise by the field itself.\<close>

definition spec_title :: "host \<Rightarrow> string \<Rightarrow> pyval \<Rightarrow> exn + pyval" where
  "spec_title h model field =
     (case ir_model_fields h model field of
        Inl e \<Rightarrow> Inl e
      | Inr None \<Rightarrow> Inr field
      | Inr (Some fi) \<Rightarrow>
          Inr (if field_description fi = [] then field else PStr (field_description fi)))"

text \<open>A dotted order field \<open>top.sub\<close> whose top field is a many2one with a known relation
  is named \<open>sub (top)\<close> by the names of both fields, \<open>sub\<close> looked up in the related
  model; any other dotted field by its own text with spaces for underscores.\<close>

definition spec_dotted_title :: "host \<Rightarrow> string \<Rightarrow> exn + pyval" where
  "spec_dotted_title h s =
     (let top_name = takeWhile (\<lambda>c. c \<noteq> CHR ''.'') s;
          sub_name = takeWhile (\<lambda>c. c \<noteq> CHR ''.'') (drop 1 (dropWhile (\<lambda>c. c \<noteq> CHR ''.'') s));
          spaced = map (\<lambda>c. if c = CHR ''_'' then CHR '' '' else c) s
      in case ir_model_fields h ''sale.order'' (PStr top_name) of
           Inl e \<Rightarrow> Inl e
         | Inr None \<Rightarrow> Inr (PStr spaced)
         | Inr (Some ft) \<Rightarrow>
             if sub_name \<noteq> [] \<and> ttype ft = ''many2one'' \<and> relation ft \<noteq> []
             then (case ir_model_fields h (relation ft) (PStr sub_name) of
                     Inl e \<Rightarrow> Inl e
                   | Inr fs \<Rightarrow>
                       Inr (PStr
                         ((case fs of
                             None \<Rightarrow> sub_name
                           | Some fi \<Rightarrow>
                               if field_description fi = [] then sub_name else field_description fi)
                          @ '' ('' @
                          (if field_description ft = [] then top_name else field_description ft)
                          @ '')'')))
             else Inr (PStr spaced))"

definition spec_order_title :: "host \<Rightarrow> pyval \<Rightarrow> exn + pyval" where
  "spec_order_title h field =
     (case field of
        PStr s \<Rightarrow> if CHR ''.'' \<in> set s then spec_dotted_title h s
                  else spec_title h ''sale.order'' field
      | _ \<Rightarrow> spec_title h ''sale.order'' field)"

text \<open>What a single \<open>%s\<close> prints for a bare right operand: a tuple of one item prints the
  item, any other tuple does not fit, anything else prints as \<open>str\<close> gives it.\<close>

fun spec_sole_operand :: "host \<Rightarrow> pyval \<Rightarrow> exn + string" where
  "spec_sole_operand h (PTuple [a]) = Inr (py_str h a)"
| "spec_sole_operand h (PTuple xs) = Inl TypeError"
| "spec_sole_operand h x = Inr (py_str h x)"

text \<open>The Vietnamese words (UTF-8): \<open>Distribution of\<close>, \<open>by\<close>, \<open>Total\<close>, \<open>Number of\<close>,
  \<open>Value by category.\<close>, \<open>Trend of the total\<close>, \<open>Trend of the number of\<close>, \<open>per day\<close>,
  \<open>in the last 14 days\<close>, \<open>(filter applied)\<close>, \<open>leads\<close>, \<open>orders\<close>.\<close>

definition words_distribution :: string where
  "words_distribution = ''Ph'' @ [CHR 0xC3, CHR 0xA2] @ ''n b'' @ [CHR 0xE1, CHR 0xBB, CHR 0x91] @ '' ''"

definition words_by :: string where
  "words_by = '' theo ''"

definition words_total :: string where
  "words_total = ''T'' @ [CHR 0xE1, CHR 0xBB, CHR 0x95] @ ''ng ''"

definition words_number :: string where
  "words_number = ''S'' @ [CHR 0xE1, CHR 0xBB, CHR 0x91] @ '' l'' @ [CHR 0xC6, CHR 0xB0, CHR 0xE1, CHR 0xBB, CHR 0xA3] @ ''ng ''"

definition words_by_category :: string where
  "words_by_category = ''Gi'' @ [CHR 0xC3, CHR 0xA1] @ '' tr'' @ [CHR 0xE1, CHR 0xBB, CHR 0x8B] @ '' theo danh m'' @ [CHR 0xE1, CHR 0xBB, CHR 0xA5] @ ''c.''"

definition words_trend_total :: string where
  "words_trend_total = ''Xu h'' @ [CHR 0xC6, CHR 0xB0, CHR 0xE1, CHR 0xBB, CHR 0x9B] @ ''ng t'' @ [CHR 0xE1, CHR 0xBB, CHR 0x95] @ ''ng ''"

definition words_trend_number :: string where
  "words_trend_number = ''Xu h'' @ [CHR 0xC6, CHR 0xB0, CHR 0xE1, CHR 0xBB, CHR 0x9B] @ ''ng s'' @ [CHR 0xE1, CHR 0xBB, CHR 0x91] @ '' l'' @ [CHR 0xC6, CHR 0xB0, CHR 0xE1, CHR 0xBB, CHR 0xA3] @ ''ng ''"

definition words_per_day :: string where
  "words_per_day = '' theo ng'' @ [CHR 0xC3, CHR 0xA0] @ ''y''"

definition words_last_14_days :: string where
  "words_last_14_days = '' trong 14 ng'' @ [CHR 0xC3, CHR 0xA0] @ ''y g'' @ [CHR 0xE1, CHR 0xBA, CHR 0xA7] @ ''n nh'' @ [CHR 0xE1, CHR 0xBA, CHR 0xA5] @ ''t''"

definition words_filter_applied :: string where
  "words_filter_applied = '' (c'' @ [CHR 0xC3, CHR 0xB3] @ '' '' @ [CHR 0xC3, CHR 0xA1] @ ''p d'' @ [CHR 0xE1, CHR 0xBB, CHR 0xA5] @ ''ng b'' @ [CHR 0xE1, CHR 0xBB, CHR 0x99] @ '' l'' @ [CHR 0xE1, CHR 0xBB, CHR 0x8D] @ ''c)''"

definition words_leads :: string where
  "words_leads = ''kh'' @ [CHR 0xC3, CHR 0xA1] @ ''ch h'' @ [CHR 0xC3, CHR 0xA0] @ ''ng ti'' @ [CHR 0xE1, CHR 0xBB, CHR 0x81] @ ''m n'' @ [CHR 0xC4, CHR 0x83] @ ''ng''"

definition words_orders :: string where
  "words_orders = [CHR 0xC4, CHR 0x91, CHR 0xC6, CHR 0xA1] @ ''n h'' @ [CHR 0xC3, CHR 0xA0] @ ''ng''"

text \<open>What differs between the two models: the records the report counts, and how it
  names a field.\<close>

record wording =
  subject :: string
  title_of :: "pyval \<Rightarrow> exn + pyval"

definition crm_wording :: "host \<Rightarrow> wording" where
  "crm_wording h = \<lparr>subject = words_leads, title_of = spec_title h ''crm.lead''\<rparr>"

definition order_wording :: "host \<Rightarrow> wording" where
  "order_wording h = \<lparr>subject = words_orders, title_of = spec_order_title h\<rparr>"

text \<open>The three sentences. Pie: the distribution of the records, by the group field when
  there is one. Bar: the total of the value field by the group field; with a group field
  only, the number of records by it; otherwise the value by category. Line: the trend of
  the total of the value field per day, or of the number of records, in the last 14
  days, with a note when a domain filters the records. A failing lookup of a field name
  is the error of the sentence.\<close>

definition spec_pie :: "host \<Rightarrow> wording \<Rightarrow> pyval \<Rightarrow> exn + string" where
  "spec_pie h w gf =
     (if truthy gf
      then thenE (title_of w gf) (\<lambda>g. thenE (spec_sole_operand h g) (\<lambda>t.
             Inr (words_distribution @ subject w @ words_by @ t @ ''.'')))
      else Inr (words_distribution @ subject w @ ''.''))"

definition spec_bar :: "host \<Rightarrow> wording \<Rightarrow> pyval \<Rightarrow> pyval \<Rightarrow> exn + string" where
  "spec_bar h w gf vf =
     (if truthy gf \<and> truthy vf
      then thenE (title_of w vf) (\<lambda>t. thenE (title_of w gf) (\<lambda>g.
             Inr (words_total @ py_str h t @ words_by @ py_str h g @ ''.'')))
      else if truthy gf
      then thenE (title_of w gf) (\<lambda>g. thenE (spec_sole_operand h g) (\<lambda>t.
             Inr (words_number @ subject w @ words_by @ t @ ''.'')))
      else Inr words_by_category)"

definition spec_line :: "host \<Rightarrow> wording \<Rightarrow> pyval \<Rightarrow> pyval \<Rightarrow> exn + string" where
  "spec_line h w vf dmn =
     (if truthy vf
      then thenE (title_of w vf) (\<lambda>t.
             Inr (words_trend_total @ py_str h t @ words_per_day @ words_last_14_days
                  @ (if truthy dmn then words_filter_applied else []) @ ''.''))
      else Inr (words_trend_number @ subject w @ words_last_14_days
                @ (if truthy dmn then words_filter_applied else []) @ ''.''))"

text \<open>
  \<open>v'\<close> is \<open>v\<close> with the absent description keys filled by the given sentences: keys other
  than the three description keys are as in \<open>v\<close>, every key present in \<open>v\<close> keeps its
  value, and an absent description key holds the sentence, which is not empty.
\<close>

definition fills_descriptions ::
  "exn + string \<Rightarrow> exn + string \<Rightarrow> exn + string \<Rightarrow> vals \<Rightarrow> vals \<Rightarrow> bool" where
  "fills_descriptions pie bar line v v' \<longleftrightarrow>
     (\<forall>k. k \<notin> description_keys \<longrightarrow> v' k = v k) \<and>
     (\<forall>k. v k \<noteq> None \<longrightarrow> v' k = v k) \<and>
     (v ''pie_description'' = None \<longrightarrow>
        (\<exists>s. pie = Inr s \<and> s \<noteq> [] \<and> v' ''pie_description'' = Some (PStr s))) \<and>
     (v ''bar_description'' = None \<longrightarrow>
        (\<exists>s. bar = Inr s \<and> s \<noteq> [] \<and> v' ''bar_description'' = Some (PStr s))) \<and>
     (v ''line_description'' = None \<longrightarrow>
        (\<exists>s. line = Inr s \<and> s \<noteq> [] \<and> v' ''line_description'' = Some (PStr s)))"

text \<open>A host whose field table names the stage of a lead, the customer and the total of
  an order, and the country of a partner.\<close>

definition labelled_host :: host where
  "labelled_host = quiet_host
     \<lparr>ir_model_fields := (\<lambda>model name.
        if model = ''crm.lead'' \<and> name = PStr ''stage_id''
        then Inr (Some \<lparr>field_description = ''Stage'', ttype = ''many2one'',
                         relation = ''crm.stage''\<rparr>)
        else if model = ''sale.order'' \<and> name = PStr ''partner_id''
        then Inr (Some \<lparr>field_description = ''Customer'', ttype = ''many2one'',
                         relation = ''res.partner''\<rparr>)
        else if model = ''sale.order'' \<and> name = PStr ''amount_total''
        then Inr (Some \<lparr>field_description = ''Total'', ttype = ''monetary'', relation = []\<rparr>)
        else if model = ''res.partner'' \<and> name = PStr ''country_id''
        then Inr (Some \<lparr>field_description = ''Country'', ttype = ''many2one'',
                         relation = ''res.country''\<rparr>)
        else Inr None)\<rparr>"

text \<open>A write to the stored report 1 that changes the value field and brings a line
  description, and the dict it becomes; the values of a new order report by country of
  the customer with a domain, and the dict they become.\<close>

definition probability_vals :: vals where
  "probability_vals = [''value_field'' \<mapsto> PStr ''probability'',
                       ''line_description'' \<mapsto> PStr ''my line'']"

definition probability_vals_filled :: vals where
  "probability_vals_filled = probability_vals
     (''pie_description'' \<mapsto> PStr (''Ph'' @ [CHR 0xC3, CHR 0xA2] @ ''n b'' @ [CHR 0xE1, CHR 0xBB, CHR 0x91] @ '' kh'' @ [CHR 0xC3, CHR 0xA1] @ ''ch h'' @ [CHR 0xC3, CHR 0xA0] @ ''ng ti'' @ [CHR 0xE1, CHR 0xBB, CHR 0x81] @ ''m n'' @ [CHR 0xC4, CHR 0x83] @ ''ng theo Stage.''),
      ''bar_description'' \<mapsto> PStr (''T'' @ [CHR 0xE1, CHR 0xBB, CHR 0x95] @ ''ng probability theo Stage.''))"

definition country_vals :: vals where
  "country_vals = [''name'' \<mapsto> PStr ''Orders by country'',
                   ''group_field'' \<mapsto> PStr ''partner_id.country_id'',
                   ''value_field'' \<mapsto> PStr ''amount_total'',
                   ''domain'' \<mapsto> PStr (''[('' @ [CHR 0x27] @ ''state'' @ [CHR 0x27] @ '', '' @ [CHR 0x27] @ ''='' @ [CHR 0x27] @ '', '' @ [CHR 0x27] @ ''sale'' @ [CHR 0x27] @ '')]'')]"

definition country_vals_filled :: vals where
  "country_vals_filled = country_vals
     (''pie_description'' \<mapsto> PStr (''Ph'' @ [CHR 0xC3, CHR 0xA2] @ ''n b'' @ [CHR 0xE1, CHR 0xBB, CHR 0x91] @ '' '' @ [CHR 0xC4, CHR 0x91, CHR 0xC6, CHR 0xA1] @ ''n h'' @ [CHR 0xC3, CHR 0xA0] @ ''ng theo Country (Customer).''),
      ''bar_description'' \<mapsto> PStr (''T'' @ [CHR 0xE1, CHR 0xBB, CHR 0x95] @ ''ng Total theo Country (Customer).''),
      ''line_description'' \<mapsto> PStr (''Xu h'' @ [CHR 0xC6, CHR 0xB0, CHR 0xE1, CHR 0xBB, CHR 0x9B] @ ''ng t'' @ [CHR 0xE1, CHR 0xBB, CHR 0x95] @ ''ng Total theo ng'' @ [CHR 0xC3, CHR 0xA0] @ ''y trong 14 ng'' @ [CHR 0xC3, CHR 0xA0] @ ''y g'' @ [CHR 0xE1, CHR 0xBA, CHR 0xA7] @ ''n nh'' @ [CHR 0xE1, CHR 0xBA, CHR 0xA5] @ ''t (c'' @ [CHR 0xC3, CHR 0xB3] @ '' '' @ [CHR 0xC3, CHR 0xA1] @ ''p d'' @ [CHR 0xE1, CHR 0xBB, CHR 0xA5] @ ''ng b'' @ [CHR 0xE1, CHR 0xBB, CHR 0x99] @ '' l'' @ [CHR 0xE1, CHR 0xBB, CHR 0x8D] @ ''c).''))"

section \<open>Properties\<close>

subsection \<open>Exceptions as values\<close>

lemma thenE_Inl [simp]: "thenE (Inl e) f = Inl e"
  by (simp add: thenE_def)

lemma thenE_Inr [simp]: "thenE (Inr x) f = f x"
  by (simp add: thenE_def)

lemma thenE_eq_Inr: "thenE m f = Inr y \<longleftrightarrow> (\<exists>x. m = Inr x \<and> f x = Inr y)"
  by (cases m) auto

lemma try_except_Inl [simp]: "try_except (Inl e) d = d"
  by (simp add: try_except_def)

lemma try_except_Inr [simp]: "try_except (Inr x) d = x"
  by (simp add: try_except_def)

lemma mapE_length: "mapE f xs = Inr ys \<Longrightarrow> length ys = length xs"
  by (induction xs arbitrary: ys) (auto simp: thenE_eq_Inr)

lemma eval_domain_total: "\<exists>v. eval_domain h r = Inr v"
  by (simp add: eval_domain_def)

lemma ungrouped_part_lengths:
  "ungrouped_part h m vf d = Inr (ls, cs, ss) \<Longrightarrow> length ls = length cs \<and> length cs = length ss"
  by (auto simp: ungrouped_part_def thenE_eq_Inr Let_def split: if_splits)

lemma LookerReport_group_part_lengths:
  "LookerReport_group_part h r d = Inr (ls, cs, ss) \<Longrightarrow> length ls = length cs \<and> length cs = length ss"
  by (auto simp: LookerReport_group_part_def thenE_eq_Inr Let_def dest: ungrouped_part_lengths split: if_splits)

lemma day_strs_length: "length (day_strs h t) = 14"
  by (simp add: day_strs_def N_def)

lemma LookerReport_line_part_lengths:
  "LookerReport_line_part h r d = Inr (ll, lv) \<Longrightarrow> length ll = 14 \<and> length lv = 14"
  by (auto simp: LookerReport_line_part_def thenE_eq_Inr Let_def day_strs_length dest!: mapE_length)

lemma LookerOrderReport_line_part_lengths:
  "LookerOrderReport_line_part h r d = Inr (ll, lv) \<Longrightarrow> length ll = 14 \<and> length lv = 14"
  by (auto simp: LookerOrderReport_line_part_def thenE_eq_Inr Let_def day_strs_length)

lemma weekday_part_lengths:
  "weekday_part h r d = Inr (ls, cs, ss) \<Longrightarrow> length ls = 7 \<and> length cs = 7 \<and> length ss = 7"
  by (auto simp: weekday_part_def thenE_eq_Inr split: prod.splits)

lemma dotted_part_lengths:
  "dotted_part h r d = Inr (ls, cs, ss) \<Longrightarrow> length ls = length cs \<and> length cs = length ss"
  by (auto simp: dotted_part_def thenE_eq_Inr Let_def)

lemma plain_part_lengths:
  "plain_part h r d = Inr (ls, cs, ss) \<Longrightarrow> length ls = length cs \<and> length cs = length ss"
  by (auto simp: plain_part_def thenE_eq_Inr Let_def)

lemma LookerOrderReport_group_part_lengths:
  "LookerOrderReport_group_part h r d = Inr (ls, cs, ss) \<Longrightarrow> length ls = length cs \<and> length cs = length ss"
  by (auto simp: LookerOrderReport_group_part_def dest: weekday_part_lengths dotted_part_lengths plain_part_lengths ungrouped_part_lengths split: if_splits)

lemma shaped_zeroed: "shaped zeroed"
  by (simp add: shaped_def zeroed_def)

lemma LookerReport_body_shaped: "LookerReport_body h r d = Inr c \<Longrightarrow> shaped c"
  by (auto simp: LookerReport_body_def thenE_eq_Inr shaped_def split: prod.splits
      dest!: LookerReport_group_part_lengths LookerReport_line_part_lengths)

lemma LookerOrderReport_body_shaped: "LookerOrderReport_body h r d = Inr c \<Longrightarrow> shaped c"
  by (auto simp: LookerOrderReport_body_def thenE_eq_Inr shaped_def split: prod.splits
      dest!: LookerOrderReport_group_part_lengths LookerOrderReport_line_part_lengths)

lemma try_except_cases: "try_except m d = d \<or> m = Inr (try_except m d)"
  by (cases m) auto

text \<open>\<open>list\<close> of a string gives its characters, not its bytes.\<close>

lemma py_list_characters:
  "py_list (PStr (''ng'' @ [CHR 0xC3, CHR 0xA0] @ ''y'')) =
     Inr [PStr ''n'', PStr ''g'', PStr [CHR 0xC3, CHR 0xA0], PStr ''y'']"
  by (simp add: code_points_def continuation_byte_def)

subsection \<open>The shape of the result\<close>

text \<open>
  C8. For every report record and every behaviour of the host, \<open>get_chart_data\<close> of both
  models returns a result (it does not raise) with the five lists \<open>labels\<close>,
  \<open>count_values\<close>, \<open>sum_values\<close>, \<open>line_labels\<close>, \<open>line_values\<close>, where the first three
  have one length and the last two have one length.
\<close>

theorem get_chart_data_shape: 
  "(\<exists>d. LookerReport_get_chart_data h [r] = Inr d \<and>
        length (labels d) = length (count_values d) \<and>
        length (count_values d) = length (sum_values d) \<and>
        length (line_labels d) = length (line_values d)) \<and>
   (\<exists>d. LookerOrderReport_get_chart_data h [r'] = Inr d \<and>
        length (labels d) = length (count_values d) \<and>
        length (count_values d) = length (sum_values d) \<and>
        length (line_labels d) = length (line_values d))"
proof -
  obtain v where v: "eval_domain h r = Inr v" using eval_domain_total by blast
  obtain v' where v': "eval_domain h r' = Inr v'" using eval_domain_total by blast
  have a: "shaped (try_except (LookerReport_body h r v) zeroed)"
    using try_except_cases[of "LookerReport_body h r v" zeroed] shaped_zeroed LookerReport_body_shaped
    by metis
  have b: "shaped (try_except (LookerOrderReport_body h r' v') zeroed)"
    using try_except_cases[of "LookerOrderReport_body h r' v'" zeroed] shaped_zeroed LookerOrderReport_body_shaped
    by metis
  show ?thesis
    using a b v v'
    by (simp add: LookerReport_get_chart_data_def LookerOrderReport_get_chart_data_def
        LookerReport_eval_domain_def LookerOrderReport_eval_domain_def shaped_def)
qed

subsection \<open>The outer exception handler\<close>

text \<open>
  C1. For every record of \<open>looker_studio.report\<close> and of \<open>looker_studio.order_report\<close>:
  \<open>get_chart_data\<close> returns a result and never an exception, and when an exception
  escapes the aggregation logic inside the outer \<open>try\<close>, that result is the zeroed one.
\<close>

theorem get_chart_data_swallows_exceptions:
  "(\<exists>d. LookerReport_get_chart_data h [r] = Inr d) \<and>
   (\<forall>dmn e. LookerReport_eval_domain h r = Inr dmn \<and> LookerReport_body h r dmn = Inl e
        \<longrightarrow> LookerReport_get_chart_data h [r] = Inr zeroed) \<and>
   (\<exists>d. LookerOrderReport_get_chart_data h [r'] = Inr d) \<and>
   (\<forall>dmn e. LookerOrderReport_eval_domain h r' = Inr dmn \<and> LookerOrderReport_body h r' dmn = Inl e
        \<longrightarrow> LookerOrderReport_get_chart_data h [r'] = Inr zeroed)"
proof -
  obtain v where v: "eval_domain h r = Inr v" using eval_domain_total by blast
  obtain v' where v': "eval_domain h r' = Inr v'" using eval_domain_total by blast
  show ?thesis
    using v v'
    by (simp add: LookerReport_get_chart_data_def LookerOrderReport_get_chart_data_def
        LookerReport_eval_domain_def LookerOrderReport_eval_domain_def)
qed

theorem get_chart_data_swallows_exceptions_witness:
  "LookerReport_body failing_host blank_report (PList []) = Inl HostError \<and>
   LookerReport_get_chart_data failing_host [blank_report] = Inr zeroed \<and>
   LookerOrderReport_body failing_host blank_order_report (PList []) = Inl HostError \<and>
   LookerOrderReport_get_chart_data failing_host [blank_order_report] = Inr zeroed"
proof -
  have d1: "LookerReport_eval_domain failing_host blank_report = Inr (PList [])"
    by (simp add: LookerReport_eval_domain_def eval_domain_def blank_report_def)
  have d2: "LookerOrderReport_eval_domain failing_host blank_order_report = Inr (PList [])"
    by (simp add: LookerOrderReport_eval_domain_def eval_domain_def blank_order_report_def)
  have b1: "LookerReport_body failing_host blank_report (PList []) = Inl HostError"
    by (simp add: LookerReport_body_def LookerReport_group_part_def ungrouped_part_def
        blank_report_def failing_host_def quiet_host_def)
  have b2: "LookerOrderReport_body failing_host blank_order_report (PList []) = Inl HostError"
    by (simp add: LookerOrderReport_body_def LookerOrderReport_group_part_def ungrouped_part_def
        blank_order_report_def failing_host_def quiet_host_def)
  show ?thesis
    using get_chart_data_swallows_exceptions [of failing_host blank_report blank_order_report]
      d1 d2 b1 b2 by blast
qed

subsection \<open>\<open>_eval_domain\<close>\<close>

text \<open>
  C10. For every report record of either model, \<open>_eval_domain\<close> never raises: it returns
  \<open>[]\<close> when the domain field is empty and when evaluating the domain text fails, and the
  evaluated value otherwise.
\<close>

theorem eval_domain_never_raises:
  "(\<exists>v. LookerReport_eval_domain h r = Inr v) \<and>
   (domain r = [] \<longrightarrow> LookerReport_eval_domain h r = Inr (PList [])) \<and>
   (\<forall>e. safe_eval h (domain r) = Inl e \<longrightarrow> LookerReport_eval_domain h r = Inr (PList [])) \<and>
   (\<forall>v. domain r \<noteq> [] \<and> safe_eval h (domain r) = Inr v \<longrightarrow> LookerReport_eval_domain h r = Inr v) \<and>
   (\<exists>v. LookerOrderReport_eval_domain h r' = Inr v) \<and>
   (domain r' = [] \<longrightarrow> LookerOrderReport_eval_domain h r' = Inr (PList [])) \<and>
   (\<forall>e. safe_eval h (domain r') = Inl e \<longrightarrow> LookerOrderReport_eval_domain h r' = Inr (PList [])) \<and>
   (\<forall>v. domain r' \<noteq> [] \<and> safe_eval h (domain r') = Inr v \<longrightarrow> LookerOrderReport_eval_domain h r' = Inr v)"
  by (auto simp: LookerReport_eval_domain_def LookerOrderReport_eval_domain_def eval_domain_def)

theorem eval_domain_never_raises_witness:
  "LookerReport_eval_domain quiet_host blank_report = Inr (PList []) \<and>
   LookerReport_eval_domain quiet_host (blank_report\<lparr>domain := ''stage_id = 4''\<rparr>) = Inr (PList []) \<and>
   LookerReport_eval_domain quiet_host (blank_report\<lparr>domain := ''5''\<rparr>) = Inr (PInt 5) \<and>
   LookerOrderReport_eval_domain quiet_host blank_order_report = Inr (PList []) \<and>
   LookerOrderReport_eval_domain quiet_host (blank_order_report\<lparr>domain := ''stage_id = 4''\<rparr>) = Inr (PList []) \<and>
   LookerOrderReport_eval_domain quiet_host (blank_order_report\<lparr>domain := ''5''\<rparr>) = Inr (PInt 5)"
proof -
  note t1 = eval_domain_never_raises [of quiet_host blank_report blank_order_report]
  note t2 = eval_domain_never_raises [of quiet_host "blank_report\<lparr>domain := ''stage_id = 4''\<rparr>"
      "blank_order_report\<lparr>domain := ''stage_id = 4''\<rparr>"]
  note t3 = eval_domain_never_raises [of quiet_host "blank_report\<lparr>domain := ''5''\<rparr>"
      "blank_order_report\<lparr>domain := ''5''\<rparr>"]
  have e1: "domain blank_report = []" "domain blank_order_report = []"
    by (simp_all add: blank_report_def blank_order_report_def)
  have e2: "safe_eval quiet_host ''stage_id = 4'' = Inl ValueError"
    by (simp add: quiet_host_def won_text_def)
  have e3: "safe_eval quiet_host ''5'' = Inr (PInt 5)"
    by (simp add: quiet_host_def)
  show ?thesis
    using t1 t2 t3 e1 e2 e3 by simp
qed

subsection \<open>The time series\<close>

lemma build_ts_map_other:
  "build_ts_map h vf gs m = Inr m' \<Longrightarrow> no_row_for h gs k \<Longrightarrow> m' k = m k"
proof (induction gs arbitrary: m)
  case Nil
  then show ?case by simp
next
  case (Cons g gs)
  from Cons.prems(1) obtain day where
    d: "first_or_self (g_get g ''create_date'') = Inr day" and
    rest: "build_ts_map h vf gs
       (m(py_str h day \<mapsto> (if vf \<noteq> [] then py_or (g_get g vf) (PFloat 0) else PInt (g_get_count g)))) = Inr m'"
    by (auto simp: thenE_eq_Inr)
  from Cons.prems(2) d have ne: "py_str h day \<noteq> k" and nr: "no_row_for h gs k"
    by (simp_all add: no_row_for_def)
  from Cons.IH [OF rest nr] ne show ?case by simp
qed

lemma py_round_zero: "py_round 0 n = 0"
  by (simp add: py_round_def round_half_even_def)

lemma success_percentage_absent:
  "ts_map k = None \<Longrightarrow> success_percentage h ts_map sm k = Inr (PFloat 0)"
  by (simp add: success_percentage_def round_float_def)

lemma mapE_nth:
  "mapE f xs = Inr ys \<Longrightarrow> i < length xs \<Longrightarrow> f (xs ! i) = Inr (ys ! i)"
proof (induction xs arbitrary: ys i)
  case Nil
  then show ?case by simp
next
  case (Cons x xs)
  then show ?case
    by (cases i) (auto simp: thenE_eq_Inr)
qed

lemma day_strs_nth: "i < 14 \<Longrightarrow> day_strs h t ! i = strftime_ymd h (t - 13 + int i)"
  by (simp add: day_strs_def N_def algebra_simps)

lemma day_strs_eq: "day_strs h t = map (\<lambda>i. strftime_ymd h (t - 13 + int i)) [0..<14]"
  by (simp add: day_strs_def N_def algebra_simps)

lemma LookerReport_line_part_default:
  assumes "LookerReport_line_part h r dmn = Inr (ll, lv)"
  shows "\<exists>t tsd. today_dt h = Inr t \<and> ts_domain h t dmn = Inr tsd \<and>
           ll = map (\<lambda>i. strftime_ymd h (t - 13 + int i)) [0..<14] \<and> length lv = 14 \<and>
           (\<forall>i<14. no_row_for h (ts_groups h ''crm.lead'' (value_field r) tsd) (ll ! i) \<longrightarrow>
              lv ! i = (if value_field r = [] \<and> \<not> truthy (success_dom h r) then PInt 0 else PFloat 0))"
proof -
  from assms obtain t tsd ts_map sm where
    t: "today_dt h = Inr t" and tsd: "ts_domain h t dmn = Inr tsd" and
    tm: "build_ts_map h (value_field r) (ts_groups h ''crm.lead'' (value_field r) tsd) Map.empty = Inr ts_map" and
    lv: "mapE (\<lambda>day_str.
                 if truthy (success_dom h r) then success_percentage h ts_map sm day_str
                 else Inr (plain_line_value (value_field r) ts_map day_str))
               (day_strs h t) = Inr lv" and
    ll: "ll = day_strs h t"
    by (auto simp: LookerReport_line_part_def thenE_eq_Inr Let_def)
  have len: "length lv = 14"
    using mapE_length [OF lv] by (simp add: day_strs_length)
  have dflt: "lv ! i = (if value_field r = [] \<and> \<not> truthy (success_dom h r) then PInt 0 else PFloat 0)"
    if i: "i < 14" and nr: "no_row_for h (ts_groups h ''crm.lead'' (value_field r) tsd) (ll ! i)" for i
  proof -
    have none: "ts_map (day_strs h t ! i) = None"
      using build_ts_map_other [OF tm] nr ll by simp
    have "(if truthy (success_dom h r) then success_percentage h ts_map sm (day_strs h t ! i)
           else Inr (plain_line_value (value_field r) ts_map (day_strs h t ! i))) = Inr (lv ! i)"
      using mapE_nth [OF lv, of i] i by (simp add: day_strs_length)
    then show ?thesis
      using none by (auto simp: success_percentage_absent plain_line_value_def split: if_splits)
  qed
  show ?thesis
    using t tsd ll len dflt by (auto simp: day_strs_eq)
qed

lemma LookerOrderReport_line_part_default:
  assumes "LookerOrderReport_line_part h r dmn = Inr (ll, lv)"
  shows "\<exists>t tsd. today_dt h = Inr t \<and> ts_domain h t dmn = Inr tsd \<and>
           ll = map (\<lambda>i. strftime_ymd h (t - 13 + int i)) [0..<14] \<and> length lv = 14 \<and>
           (\<forall>i<14. no_row_for h (ts_groups h ''sale.order'' (value_field r) tsd) (ll ! i) \<longrightarrow>
              lv ! i = (if value_field r = [] then PInt 0 else PFloat 0))"
proof -
  from assms obtain t tsd ts_map where
    t: "today_dt h = Inr t" and tsd: "ts_domain h t dmn = Inr tsd" and
    tm: "build_ts_map h (value_field r) (ts_groups h ''sale.order'' (value_field r) tsd) Map.empty = Inr ts_map" and
    lv: "lv = map (plain_line_value (value_field r) ts_map) (day_strs h t)" and
    ll: "ll = day_strs h t"
    by (auto simp: LookerOrderReport_line_part_def thenE_eq_Inr Let_def)
  have dflt: "lv ! i = (if value_field r = [] then PInt 0 else PFloat 0)"
    if i: "i < 14" and nr: "no_row_for h (ts_groups h ''sale.order'' (value_field r) tsd) (ll ! i)" for i
  proof -
    have none: "ts_map (day_strs h t ! i) = None"
      using build_ts_map_other [OF tm] nr ll by simp
    then show ?thesis
      using i lv by (simp add: day_strs_length plain_line_value_def)
  qed
  show ?thesis
    using t tsd ll lv dflt by (auto simp: day_strs_eq day_strs_length)
qed

lemma LookerReport_body_lines:
  "LookerReport_body h r dmn = Inr d \<Longrightarrow> LookerReport_line_part h r dmn = Inr (line_labels d, line_values d)"
  by (auto simp: LookerReport_body_def thenE_eq_Inr split: prod.splits)

lemma LookerOrderReport_body_lines:
  "LookerOrderReport_body h r dmn = Inr d \<Longrightarrow> LookerOrderReport_line_part h r dmn = Inr (line_labels d, line_values d)"
  by (auto simp: LookerOrderReport_body_def thenE_eq_Inr split: prod.splits)

text \<open>
  C9 (amended). On every non-error run of \<open>get_chart_data\<close> of either model,
  \<open>line_labels\<close> is the 14 consecutive dates ending at the context's today, formatted by
  \<open>strftime('%Y-%m-%d')\<close>, in ascending order, and \<open>line_values\<close> has 14 entries. For a
  day without a row in the time-series aggregation the entry is the integer \<open>0\<close> when
  no value field is set and no success domain is in effect, and the float \<open>0.0\<close>
  otherwise (a value field is set, or, for \<open>looker_studio.report\<close>, the success domain
  evaluates to a true value, in which case the entries are percentages).
\<close>

theorem line_series_of_last_14_days:
  "(LookerReport_body h r dmn = Inr d \<longrightarrow>
      (\<exists>t tsd. today_dt h = Inr t \<and> ts_domain h t dmn = Inr tsd \<and>
         line_labels d = map (\<lambda>i. strftime_ymd h (t - 13 + int i)) [0..<14] \<and>
         length (line_values d) = 14 \<and>
         (\<forall>i<14. no_row_for h (ts_groups h ''crm.lead'' (value_field r) tsd) (line_labels d ! i) \<longrightarrow>
            line_values d ! i =
              (if value_field r = [] \<and> \<not> truthy (success_dom h r) then PInt 0 else PFloat 0)))) \<and>
   (LookerOrderReport_body h r' dmn' = Inr d' \<longrightarrow>
      (\<exists>t tsd. today_dt h = Inr t \<and> ts_domain h t dmn' = Inr tsd \<and>
         line_labels d' = map (\<lambda>i. strftime_ymd h (t - 13 + int i)) [0..<14] \<and>
         length (line_values d') = 14 \<and>
         (\<forall>i<14. no_row_for h (ts_groups h ''sale.order'' (value_field r') tsd) (line_labels d' ! i) \<longrightarrow>
            line_values d' ! i = (if value_field r' = [] then PInt 0 else PFloat 0))))"
  using LookerReport_line_part_default [OF LookerReport_body_lines, of h r dmn d]
    LookerOrderReport_line_part_default [OF LookerOrderReport_body_lines, of h r' dmn' d']
  by blast

subsection \<open>Evaluation on the example hosts\<close>

lemmas eval_defs =
  LookerReport_get_chart_data_def LookerReport_eval_domain_def eval_domain_def
  LookerReport_body_def LookerReport_group_part_def LookerReport_group_entries_def
  LookerReport_line_part_def ungrouped_part_def today_dt_def ts_domain_def ts_groups_def
  ts_groups_success_def success_dom_def day_strs_def N_def date_add_def
  success_percentage_def plain_line_value_def py_or_def round_float_def py_round_def
  round_half_even_def
  first_or_self_def second_or_undefined_def g_get_def g_get_count_def py_str_def
  make_entry_def dict_get_def dict_set_def limit_n_def apply_limit_def sorted_desc_def
  LookerOrderReport_get_chart_data_def LookerOrderReport_eval_domain_def
  LookerOrderReport_body_def LookerOrderReport_group_part_def LookerOrderReport_line_part_def
  weekday_part_def dotted_part_def dotted_group_entries_def plain_part_def plain_group_row_def
  row_weekday_def row_value_def weekday_def rel_model_of_def resolve_target_def
  target_id_label_def group_target_def dict_lookup_def top_of_def rel_field_of_def
  top_groups_def top_sum_map_def Let_def

lemma upt14: "[0..<14] = [0,1,2,3,4,5,6,7,8,9,10,11,12,13]"
  by (simp add: upt_rec)

lemmas example_defs =
  quiet_host_def failing_host_def revenue_host_def blank_report_def blank_order_report_def
  percent_report_def amount_order_report_def won_text_def strftime_table_def
  october_days_def last_14_days_domain_def day_row_def won_row_def zeroed_def

lemma quiet_percent_body:
  "LookerReport_body quiet_host percent_report (PList []) =
     Inr \<lparr>labels = [''All''], count_values = [0], sum_values = [PInt 0],
          line_labels = october_days, line_values = replicate 14 (PFloat 0)\<rparr>"
  by (simp add: eval_defs example_defs upt14 numeral_eq_Suc)

lemma quiet_blank_body:
  "LookerReport_body quiet_host blank_report (PList []) =
     Inr \<lparr>labels = [''All''], count_values = [0], sum_values = [PInt 0],
          line_labels = october_days, line_values = replicate 14 (PInt 0)\<rparr>"
  by (simp add: eval_defs example_defs upt14 numeral_eq_Suc)

lemma quiet_amount_body:
  "LookerOrderReport_body quiet_host amount_order_report (PList []) =
     Inr \<lparr>labels = [''All''], count_values = [0], sum_values = [PFloat 0],
          line_labels = october_days, line_values = replicate 14 (PFloat 0)\<rparr>"
  by (simp add: eval_defs example_defs upt14 numeral_eq_Suc)

text \<open>
  C9 as stated fails: a \<open>looker_studio.report\<close> with a success domain and no value field,
  on a host without any lead, runs without error and no day has a row, yet every entry
  of \<open>line_values\<close> is the float \<open>0.0\<close> (the rounded percentage), not the integer \<open>0\<close>.
\<close>

theorem line_default_counterexample:
  "LookerReport_get_chart_data quiet_host [percent_report] =
     Inr \<lparr>labels = [''All''], count_values = [0], sum_values = [PInt 0],
          line_labels = october_days, line_values = replicate 14 (PFloat 0)\<rparr> \<and>
   LookerReport_body quiet_host percent_report (PList []) =
     Inr \<lparr>labels = [''All''], count_values = [0], sum_values = [PInt 0],
          line_labels = october_days, line_values = replicate 14 (PFloat 0)\<rparr> \<and>
   value_field percent_report = [] \<and>
   ts_groups quiet_host ''crm.lead'' (value_field percent_report) last_14_days_domain = [] \<and>
   replicate 14 (PFloat 0) ! 0 \<noteq> PInt 0"
  using quiet_percent_body
  by (simp add: LookerReport_get_chart_data_def LookerReport_eval_domain_def eval_domain_def
      ts_groups_def example_defs)

theorem line_series_of_last_14_days_witness:
  "line_labels \<lparr>labels = [''All''], count_values = [0], sum_values = [PInt 0],
          line_labels = october_days, line_values = replicate 14 (PInt 0)\<rparr>
     = map (\<lambda>i. strftime_table (739923 - 13 + int i)) [0..<14] \<and>
   line_values \<lparr>labels = [''All''], count_values = [0], sum_values = [PInt 0],
          line_labels = october_days, line_values = replicate 14 (PInt 0)\<rparr> ! 13 = PInt 0 \<and>
   line_values \<lparr>labels = [''All''], count_values = [0], sum_values = [PFloat 0],
          line_labels = october_days, line_values = replicate 14 (PFloat 0)\<rparr> ! 13 = PFloat 0"
proof -
  let ?d = "\<lparr>labels = [''All''], count_values = [0], sum_values = [PInt 0],
          line_labels = october_days, line_values = replicate 14 (PInt 0)\<rparr>"
  let ?d' = "\<lparr>labels = [''All''], count_values = [0], sum_values = [PFloat 0],
          line_labels = october_days, line_values = replicate 14 (PFloat 0)\<rparr>"
  note th = line_series_of_last_14_days [of quiet_host blank_report "PList []" ?d
      amount_order_report "PList []" ?d']
  have t: "today_dt quiet_host = Inr 739923"
    by (simp add: today_dt_def example_defs)
  have s: "strftime_ymd quiet_host = strftime_table"
    by (simp add: example_defs)
  from th quiet_blank_body quiet_amount_body t s show ?thesis
    by auto
qed

text \<open>
  C3. With a success domain in effect each entry of \<open>line_values\<close> should be
  \<open>round(100 * s / t, 1)\<close>, \<open>t\<close> the day's count of leads and \<open>s\<close> the day's count of
  successful leads. The code takes \<open>t\<close> from \<open>ts_map\<close>, which holds the day's sum of the
  value field whenever a value field is set. On the host with two leads of revenue 1000
  and one success the last day's entry is \<open>0.1\<close> with the value field set, and the
  claimed \<open>50.0\<close> only without it.
\<close>

theorem percentage_divides_by_value_sum:
  "LookerReport_get_chart_data revenue_host [percent_report\<lparr>value_field := ''expected_revenue''\<rparr>] =
     Inr \<lparr>labels = [''All''], count_values = [2], sum_values = [PFloat 1000],
          line_labels = october_days,
          line_values = replicate 13 (PFloat 0) @ [PFloat (1 / 10)]\<rparr> \<and>
   LookerReport_get_chart_data revenue_host [percent_report] =
     Inr \<lparr>labels = [''All''], count_values = [2], sum_values = [PInt 2],
          line_labels = october_days,
          line_values = replicate 13 (PFloat 0) @ [PFloat 50]\<rparr> \<and>
   py_round (100 * 1 / 2) 1 = 50"
  by (simp add: eval_defs example_defs upt14 numeral_eq_Suc)

subsection \<open>Weekday buckets\<close>




lemma map_upt_7_eq:
  "length xs = 7 \<Longrightarrow> (\<forall>i<7. xs ! i = f i) \<Longrightarrow> map (\<lambda>i. xs ! i) [0..<7] = map f [0..<7]"
  by simp









subsection \<open>The row limit\<close>











subsection \<open>Evaluation of the grouped branches on the example hosts\<close>


































subsection \<open>Dotted group fields\<close>





subsection \<open>Generated descriptions\<close>

lemma fill_three_frame:
  assumes "v' = set_if_absent ''line_description'' line
               (set_if_absent ''bar_description'' bar (set_if_absent ''pie_description'' pie v))"
  shows "(\<forall>k. k \<notin> description_keys \<longrightarrow> v' k = v k) \<and>
         (\<forall>k. v k \<noteq> None \<longrightarrow> v' k = v k) \<and>
         (v ''pie_description'' = None \<longrightarrow> v' ''pie_description'' = Some (PStr pie)) \<and>
         (v ''bar_description'' = None \<longrightarrow> v' ''bar_description'' = Some (PStr bar)) \<and>
         (v ''line_description'' = None \<longrightarrow> v' ''line_description'' = Some (PStr line))"
  unfolding assms
  by (auto simp: description_keys_def set_if_absent_def split: option.splits)

lemma mapE_list_all2':
  "mapE f xs = Inr ys \<Longrightarrow> list_all2 (\<lambda>x y. f x = Inr y) xs ys"
  by (induction xs arbitrary: ys) (auto simp: thenE_eq_Inr)

text \<open>The code derives the sentences from the values that are expected.\<close>

lemma record_fallback_spec:
  "record_fallback st self name (vals_get v name) = spec_derived_from st self v name"
  by (auto simp: record_fallback_def vals_get_def spec_derived_from_def rec_field_def py_or_def
      Let_def split: list.splits option.splits)

text \<open>The code names a field as expected.\<close>

lemma label_spec: "truthy field \<Longrightarrow> label h field = spec_title h ''crm.lead'' field"
  by (auto simp: label_def spec_title_def description_or_def thenE_def
      split: sum.splits option.splits)

lemma split_on_not_Nil: "split_on c s \<noteq> []"
  by (induction s) (auto split: list.splits)

lemma split_on_first:
  "(case split_on c s of [] \<Rightarrow> [] | p # ps \<Rightarrow> p) = takeWhile (\<lambda>x. x \<noteq> c) s"
  by (induction s) (auto split: list.splits)

lemma split_on_second:
  "c \<in> set s \<Longrightarrow>
     1 < length (split_on c s) \<and>
     split_on c s ! 1 = takeWhile (\<lambda>x. x \<noteq> c) (drop 1 (dropWhile (\<lambda>x. x \<noteq> c) s))"
proof (induction s)
  case Nil
  then show ?case by simp
next
  case (Cons x xs)
  show ?case
  proof (cases "x = c")
    case True
    with split_on_first [of c xs] split_on_not_Nil [of c xs] show ?thesis
      by (auto split: list.splits)
  next
    case False
    with Cons.prems have "c \<in> set xs" by simp
    from Cons.IH [OF this] False show ?thesis
      by (auto split: list.splits)
  qed
qed

lemma order_field_label_spec:
  "truthy field \<Longrightarrow> order_field_label h field = spec_order_title h field"
proof (cases field)
  case (PStr s)
  assume t: "truthy field"
  show ?thesis
  proof (cases "CHR ''.'' \<in> set s")
    case True
    note parts = split_on_first [of "CHR ''.''" s] split_on_second [OF True]
    from t PStr True parts show ?thesis
      by (auto simp: order_field_label_def spec_order_title_def spec_dotted_title_def
          replace_underscores_def description_or_def py_str_def thenE_def Let_def
          split: sum.splits option.splits)
  next
    case False
    with t PStr show ?thesis
      by (auto simp: order_field_label_def spec_order_title_def spec_title_def
          description_or_def py_or_def thenE_def split: sum.splits option.splits)
  qed
qed (auto simp: order_field_label_def spec_order_title_def spec_title_def
      description_or_def py_or_def thenE_def split: sum.splits option.splits)

text \<open>The code builds the sentences as expected.\<close>

lemma fmt1_spec:
  "fmt1 h pre x post = thenE (spec_sole_operand h x) (\<lambda>t. Inr (pre @ t @ post))"
  by (cases "(h, x)" rule: spec_sole_operand.cases) (simp_all add: fmt1_def)

lemma crm_pie_spec: "crm_pie h gf = spec_pie h (crm_wording h) gf"
  by (simp add: crm_pie_def spec_pie_def crm_wording_def label_spec fmt1_spec
      txt_crm_pie_by_def txt_crm_pie_def words_distribution_def words_leads_def words_by_def)

lemma crm_bar_spec: "crm_bar h gf vf = spec_bar h (crm_wording h) gf vf"
  by (simp add: crm_bar_def spec_bar_def crm_wording_def label_spec fmt1_spec
      txt_total_def txt_by_def txt_crm_count_by_def txt_by_category_def
      words_total_def words_by_def words_number_def words_leads_def words_by_category_def)

lemma crm_line_spec: "crm_line h vf dmn = spec_line h (crm_wording h) vf dmn"
  by (simp add: crm_line_def spec_line_def crm_wording_def label_spec
      txt_trend_total_def txt_daily_14_def txt_filtered_def txt_crm_trend_count_def
      words_trend_total_def words_per_day_def words_last_14_days_def words_filter_applied_def
      words_trend_number_def words_leads_def)

lemma order_pie_spec: "order_pie h gf = spec_pie h (order_wording h) gf"
  by (simp add: order_pie_def spec_pie_def order_wording_def order_field_label_spec fmt1_spec
      txt_order_pie_by_def txt_order_pie_def words_distribution_def words_orders_def
      words_by_def)

lemma order_bar_spec: "order_bar h gf vf = spec_bar h (order_wording h) gf vf"
  by (simp add: order_bar_def spec_bar_def order_wording_def order_field_label_spec fmt1_spec
      txt_total_def txt_by_def txt_order_count_by_def txt_by_category_def
      words_total_def words_by_def words_number_def words_orders_def words_by_category_def)

lemma order_line_spec: "order_line h vf dmn = spec_line h (order_wording h) vf dmn"
  by (simp add: order_line_def spec_line_def order_wording_def order_field_label_spec
      txt_trend_total_def txt_daily_14_def txt_filtered_def txt_order_trend_count_def
      words_trend_total_def words_per_day_def words_last_14_days_def words_filter_applied_def
      words_trend_number_def words_orders_def)

text \<open>No sentence is empty.\<close>

lemma spec_pie_not_empty: "spec_pie h w gf = Inr s \<Longrightarrow> s \<noteq> []"
  by (auto simp: spec_pie_def thenE_eq_Inr words_distribution_def split: if_splits)

lemma spec_bar_not_empty: "spec_bar h w gf vf = Inr s \<Longrightarrow> s \<noteq> []"
  by (auto simp: spec_bar_def thenE_eq_Inr words_total_def words_number_def
      words_by_category_def split: if_splits)

lemma spec_line_not_empty: "spec_line h w vf dmn = Inr s \<Longrightarrow> s \<noteq> []"
  by (auto simp: spec_line_def thenE_eq_Inr words_trend_total_def words_trend_number_def
      split: if_splits)

lemma LookerReport_ensure_frame:
  assumes "LookerReport_ensure_auto_descriptions h st self v = Inr v'"
  shows "fills_descriptions
        (spec_pie h (crm_wording h) (spec_derived_from st self v ''group_field''))
        (spec_bar h (crm_wording h) (spec_derived_from st self v ''group_field'')
           (spec_derived_from st self v ''value_field''))
        (spec_line h (crm_wording h) (spec_derived_from st self v ''value_field'')
           (spec_derived_from st self v ''domain''))
        v v'"
proof -
  from assms obtain pie bar line where
    p: "spec_pie h (crm_wording h) (spec_derived_from st self v ''group_field'') = Inr pie" and
    b: "spec_bar h (crm_wording h) (spec_derived_from st self v ''group_field'')
           (spec_derived_from st self v ''value_field'') = Inr bar" and
    l: "spec_line h (crm_wording h) (spec_derived_from st self v ''value_field'')
           (spec_derived_from st self v ''domain'') = Inr line" and
    v': "v' = set_if_absent ''line_description'' line
               (set_if_absent ''bar_description'' bar (set_if_absent ''pie_description'' pie v))"
    by (auto simp: LookerReport_ensure_auto_descriptions_def Let_def thenE_eq_Inr
        record_fallback_spec crm_pie_spec crm_bar_spec crm_line_spec)
  from fill_three_frame [OF v'] p b l
    spec_pie_not_empty [OF p] spec_bar_not_empty [OF b] spec_line_not_empty [OF l]
  show ?thesis by (simp add: fills_descriptions_def)
qed

lemma LookerOrderReport_ensure_frame:
  assumes "LookerOrderReport_ensure_auto_descriptions h st self v = Inr v'"
  shows "fills_descriptions
        (spec_pie h (order_wording h) (spec_derived_from st self v ''group_field''))
        (spec_bar h (order_wording h) (spec_derived_from st self v ''group_field'')
           (spec_derived_from st self v ''value_field''))
        (spec_line h (order_wording h) (spec_derived_from st self v ''value_field'')
           (spec_derived_from st self v ''domain''))
        v v'"
proof -
  from assms obtain pie bar line where
    p: "spec_pie h (order_wording h) (spec_derived_from st self v ''group_field'') = Inr pie" and
    b: "spec_bar h (order_wording h) (spec_derived_from st self v ''group_field'')
           (spec_derived_from st self v ''value_field'') = Inr bar" and
    l: "spec_line h (order_wording h) (spec_derived_from st self v ''value_field'')
           (spec_derived_from st self v ''domain'') = Inr line" and
    v': "v' = set_if_absent ''line_description'' line
               (set_if_absent ''bar_description'' bar (set_if_absent ''pie_description'' pie v))"
    by (auto simp: LookerOrderReport_ensure_auto_descriptions_def Let_def thenE_eq_Inr
        record_fallback_spec order_pie_spec order_bar_spec order_line_spec)
  from fill_three_frame [OF v'] p b l
    spec_pie_not_empty [OF p] spec_bar_not_empty [OF b] spec_line_not_empty [OF l]
  show ?thesis by (simp add: fills_descriptions_def)
qed

lemma create_outcome:
  "((\<exists>e. ensure_and_validate ensure v = Inl e \<and>
         thenE (ensure_and_validate ensure v) (\<lambda>v'. save (ValsDict v')) = Inl e) \<or>
    (\<exists>w. ensure v = Inr w \<and>
         thenE (ensure_and_validate ensure v) (\<lambda>v'. save (ValsDict v')) = save (ValsDict w))) \<and>
   ((\<exists>e. mapE (ensure_and_validate ensure) vs = Inl e \<and>
         thenE (mapE (ensure_and_validate ensure) vs) (\<lambda>vs'. save (ValsList vs')) = Inl e) \<or>
    (\<exists>ws. list_all2 (filled_by ensure) vs ws \<and>
         thenE (mapE (ensure_and_validate ensure) vs) (\<lambda>vs'. save (ValsList vs')) =
           save (ValsList ws)))"
proof (intro conjI)
  show "(\<exists>e. ensure_and_validate ensure v = Inl e \<and>
         thenE (ensure_and_validate ensure v) (\<lambda>v'. save (ValsDict v')) = Inl e) \<or>
    (\<exists>w. ensure v = Inr w \<and>
         thenE (ensure_and_validate ensure v) (\<lambda>v'. save (ValsDict v')) = save (ValsDict w))"
    by (cases "ensure_and_validate ensure v")
       (auto simp: ensure_and_validate_def split: if_splits)
next
  show "(\<exists>e. mapE (ensure_and_validate ensure) vs = Inl e \<and>
         thenE (mapE (ensure_and_validate ensure) vs) (\<lambda>vs'. save (ValsList vs')) = Inl e) \<or>
    (\<exists>ws. list_all2 (filled_by ensure) vs ws \<and>
         thenE (mapE (ensure_and_validate ensure) vs) (\<lambda>vs'. save (ValsList vs')) =
           save (ValsList ws))"
  proof (cases "mapE (ensure_and_validate ensure) vs")
    case (Inl e)
    then show ?thesis by simp
  next
    case (Inr ws)
    have "list_all2 (\<lambda>x y. ensure_and_validate ensure x = Inr y) vs ws"
      using mapE_list_all2' [OF Inr] .
    then have "list_all2 (filled_by ensure) vs ws"
      by (rule list_all2_mono) (auto simp: filled_by_def ensure_and_validate_def split: if_splits)
    with Inr show ?thesis by auto
  qed
qed

text \<open>
  C7. For every \<open>create\<close> and every \<open>write\<close> with a values dict, on both models, the dict
  handed to the ORM's save is the given dict in which every absent key among
  \<open>pie_description\<close>, \<open>bar_description\<close>, \<open>line_description\<close> holds the generated
  Vietnamese sentence, every such key that is present keeps its value, and no other key
  is changed. The sentences are the expected ones (\<open>spec_pie\<close>, \<open>spec_bar\<close>,
  \<open>spec_line\<close>), derived from group field, value field and domain, and never empty. A
  \<open>create\<close> or \<open>write\<close> either raises before the save (the validation of \<open>create\<close>, or a
  failing lookup of a field name) and then saves nothing, or calls the save with the dict
  so filled.
\<close>

theorem auto_descriptions_fill_only_absent_keys:
  "(LookerReport_ensure_auto_descriptions h st self v = Inr v' \<longrightarrow>
      fills_descriptions
        (spec_pie h (crm_wording h) (spec_derived_from st self v ''group_field''))
        (spec_bar h (crm_wording h) (spec_derived_from st self v ''group_field'')
           (spec_derived_from st self v ''value_field''))
        (spec_line h (crm_wording h) (spec_derived_from st self v ''value_field'')
           (spec_derived_from st self v ''domain''))
        v v') \<and>
   (LookerOrderReport_ensure_auto_descriptions h st self v = Inr v' \<longrightarrow>
      fills_descriptions
        (spec_pie h (order_wording h) (spec_derived_from st self v ''group_field''))
        (spec_bar h (order_wording h) (spec_derived_from st self v ''group_field'')
           (spec_derived_from st self v ''value_field''))
        (spec_line h (order_wording h) (spec_derived_from st self v ''value_field'')
           (spec_derived_from st self v ''domain''))
        v v') \<and>
   LookerReport_write p h st self (WriteDict v) =
     (case LookerReport_ensure_auto_descriptions h st self v of
        Inl e \<Rightarrow> Inl e | Inr w \<Rightarrow> orm_write p st self (WriteDict w)) \<and>
   LookerOrderReport_write p h st self (WriteDict v) =
     (case LookerOrderReport_ensure_auto_descriptions h st self v of
        Inl e \<Rightarrow> Inl e | Inr w \<Rightarrow> orm_write p st self (WriteDict w)) \<and>
   ((\<exists>e. ensure_and_validate (LookerReport_ensure_auto_descriptions h st self) v = Inl e \<and>
         LookerReport_create p h st self (ValsDict v) = Inl e) \<or>
    (\<exists>w. LookerReport_ensure_auto_descriptions h st self v = Inr w \<and>
         LookerReport_create p h st self (ValsDict v) = orm_create p st (ValsDict w))) \<and>
   ((\<exists>e. mapE (ensure_and_validate (LookerReport_ensure_auto_descriptions h st self)) vs = Inl e \<and>
         LookerReport_create p h st self (ValsList vs) = Inl e) \<or>
    (\<exists>ws. list_all2 (filled_by (LookerReport_ensure_auto_descriptions h st self)) vs ws \<and>
         LookerReport_create p h st self (ValsList vs) = orm_create p st (ValsList ws))) \<and>
   ((\<exists>e. ensure_and_validate (LookerOrderReport_ensure_auto_descriptions h st self) v = Inl e \<and>
         LookerOrderReport_create p h st self (ValsDict v) = Inl e) \<or>
    (\<exists>w. LookerOrderReport_ensure_auto_descriptions h st self v = Inr w \<and>
         LookerOrderReport_create p h st self (ValsDict v) = orm_create p st (ValsDict w))) \<and>
   ((\<exists>e. mapE (ensure_and_validate (LookerOrderReport_ensure_auto_descriptions h st self)) vs = Inl e \<and>
         LookerOrderReport_create p h st self (ValsList vs) = Inl e) \<or>
    (\<exists>ws. list_all2 (filled_by (LookerOrderReport_ensure_auto_descriptions h st self)) vs ws \<and>
         LookerOrderReport_create p h st self (ValsList vs) = orm_create p st (ValsList ws)))"
proof -
  have a: "LookerReport_ensure_auto_descriptions h st self v = Inr v' \<longrightarrow>
      fills_descriptions
        (spec_pie h (crm_wording h) (spec_derived_from st self v ''group_field''))
        (spec_bar h (crm_wording h) (spec_derived_from st self v ''group_field'')
           (spec_derived_from st self v ''value_field''))
        (spec_line h (crm_wording h) (spec_derived_from st self v ''value_field'')
           (spec_derived_from st self v ''domain''))
        v v'"
    using LookerReport_ensure_frame [of h st self v v'] by blast
  have b: "LookerOrderReport_ensure_auto_descriptions h st self v = Inr v' \<longrightarrow>
      fills_descriptions
        (spec_pie h (order_wording h) (spec_derived_from st self v ''group_field''))
        (spec_bar h (order_wording h) (spec_derived_from st self v ''group_field'')
           (spec_derived_from st self v ''value_field''))
        (spec_line h (order_wording h) (spec_derived_from st self v ''value_field'')
           (spec_derived_from st self v ''domain''))
        v v'"
    using LookerOrderReport_ensure_frame [of h st self v v'] by blast
  have c: "LookerReport_write p h st self (WriteDict v) =
     (case LookerReport_ensure_auto_descriptions h st self v of
        Inl e \<Rightarrow> Inl e | Inr w \<Rightarrow> orm_write p st self (WriteDict w))"
    "LookerOrderReport_write p h st self (WriteDict v) =
     (case LookerOrderReport_ensure_auto_descriptions h st self v of
        Inl e \<Rightarrow> Inl e | Inr w \<Rightarrow> orm_write p st self (WriteDict w))"
    by (simp_all add: LookerReport_write_def LookerOrderReport_write_def thenE_def)
  note d = create_outcome [of "LookerReport_ensure_auto_descriptions h st self" v
      "orm_create p st" vs]
  note e = create_outcome [of "LookerOrderReport_ensure_auto_descriptions h st self" v
      "orm_create p st" vs]
  show ?thesis
    using a b c d e
    by (simp add: LookerReport_create_def LookerOrderReport_create_def)
qed

lemma labelled_host_fields:
  "ir_model_fields labelled_host ''crm.lead'' (PStr ''stage_id'') =
     Inr (Some \<lparr>field_description = ''Stage'', ttype = ''many2one'', relation = ''crm.stage''\<rparr>)"
  "ir_model_fields labelled_host ''crm.lead'' (PStr ''probability'') = Inr None"
  "ir_model_fields labelled_host ''sale.order'' (PStr ''partner_id'') =
     Inr (Some \<lparr>field_description = ''Customer'', ttype = ''many2one'',
                relation = ''res.partner''\<rparr>)"
  "ir_model_fields labelled_host ''sale.order'' (PStr ''amount_total'') =
     Inr (Some \<lparr>field_description = ''Total'', ttype = ''monetary'', relation = []\<rparr>)"
  "ir_model_fields labelled_host ''res.partner'' (PStr ''country_id'') =
     Inr (Some \<lparr>field_description = ''Country'', ttype = ''many2one'',
                relation = ''res.country''\<rparr>)"
  by (simp_all add: labelled_host_def)

lemma probability_vals_ensured:
  "LookerReport_ensure_auto_descriptions labelled_host one_report [1] probability_vals =
     Inr probability_vals_filled"
  by (simp add: LookerReport_ensure_auto_descriptions_def Let_def record_fallback_def vals_get_def
      rec_field_def one_report_def lead_vals_def probability_vals_def probability_vals_filled_def
      crm_pie_def crm_bar_def crm_line_def label_def description_or_def fmt1_def py_str_def
      py_or_def labelled_host_fields set_if_absent_def txt_crm_pie_by_def txt_total_def txt_by_def
      fun_upd_twist)

lemma country_vals_ensured:
  "LookerOrderReport_ensure_auto_descriptions labelled_host Map.empty [] country_vals =
     Inr country_vals_filled"
  by (simp add: LookerOrderReport_ensure_auto_descriptions_def Let_def record_fallback_def
      vals_get_def country_vals_def country_vals_filled_def order_pie_def order_bar_def
      order_line_def order_field_label_def description_or_def fmt1_def py_str_def py_or_def
      labelled_host_fields set_if_absent_def txt_order_pie_by_def txt_total_def txt_by_def
      txt_trend_total_def txt_daily_14_def txt_filtered_def)

theorem auto_descriptions_fill_only_absent_keys_witness:
  "(case LookerReport_write plain_orm labelled_host one_report [1] (WriteDict probability_vals) of
      Inl e \<Rightarrow> False
    | Inr st' \<Rightarrow>
        rec_field st' 1 ''pie_description'' = PStr (''Ph'' @ [CHR 0xC3, CHR 0xA2] @ ''n b'' @ [CHR 0xE1, CHR 0xBB, CHR 0x91] @ '' kh'' @ [CHR 0xC3, CHR 0xA1] @ ''ch h'' @ [CHR 0xC3, CHR 0xA0] @ ''ng ti'' @ [CHR 0xE1, CHR 0xBB, CHR 0x81] @ ''m n'' @ [CHR 0xC4, CHR 0x83] @ ''ng theo Stage.'') \<and>
        rec_field st' 1 ''bar_description'' = PStr (''T'' @ [CHR 0xE1, CHR 0xBB, CHR 0x95] @ ''ng probability theo Stage.'') \<and>
        rec_field st' 1 ''line_description'' = PStr ''my line'' \<and>
        rec_field st' 1 ''value_field'' = PStr ''probability'' \<and>
        rec_field st' 1 ''group_field'' = PStr ''stage_id'' \<and>
        rec_field st' 1 ''name'' = PStr ''Leads by stage'') \<and>
   (case LookerOrderReport_create plain_orm labelled_host Map.empty [] (ValsDict country_vals) of
      Inl e \<Rightarrow> False
    | Inr (st', ids) \<Rightarrow>
        ids = [2] \<and>
        rec_field st' 2 ''pie_description'' = PStr (''Ph'' @ [CHR 0xC3, CHR 0xA2] @ ''n b'' @ [CHR 0xE1, CHR 0xBB, CHR 0x91] @ '' '' @ [CHR 0xC4, CHR 0x91, CHR 0xC6, CHR 0xA1] @ ''n h'' @ [CHR 0xC3, CHR 0xA0] @ ''ng theo Country (Customer).'') \<and>
        rec_field st' 2 ''bar_description'' = PStr (''T'' @ [CHR 0xE1, CHR 0xBB, CHR 0x95] @ ''ng Total theo Country (Customer).'') \<and>
        rec_field st' 2 ''line_description'' = PStr (''Xu h'' @ [CHR 0xC6, CHR 0xB0, CHR 0xE1, CHR 0xBB, CHR 0x9B] @ ''ng t'' @ [CHR 0xE1, CHR 0xBB, CHR 0x95] @ ''ng Total theo ng'' @ [CHR 0xC3, CHR 0xA0] @ ''y trong 14 ng'' @ [CHR 0xC3, CHR 0xA0] @ ''y g'' @ [CHR 0xE1, CHR 0xBA, CHR 0xA7] @ ''n nh'' @ [CHR 0xE1, CHR 0xBA, CHR 0xA5] @ ''t (c'' @ [CHR 0xC3, CHR 0xB3] @ '' '' @ [CHR 0xC3, CHR 0xA1] @ ''p d'' @ [CHR 0xE1, CHR 0xBB, CHR 0xA5] @ ''ng b'' @ [CHR 0xE1, CHR 0xBB, CHR 0x99] @ '' l'' @ [CHR 0xE1, CHR 0xBB, CHR 0x8D] @ ''c).'') \<and>
        rec_field st' 2 ''group_field'' = PStr ''partner_id.country_id'' \<and>
        rec_field st' 2 ''name'' = PStr ''Orders by country'')"
proof -
  note crm = auto_descriptions_fill_only_absent_keys [of labelled_host one_report "[1]"
      probability_vals probability_vals_filled plain_orm]
  note ord = auto_descriptions_fill_only_absent_keys [of labelled_host Map.empty "[]"
      country_vals country_vals_filled plain_orm]
  from crm probability_vals_ensured have
    w: "LookerReport_write plain_orm labelled_host one_report [1] (WriteDict probability_vals) =
          orm_write plain_orm one_report [1] (WriteDict probability_vals_filled)"
    by simp
  have v: "ensure_and_validate
      (LookerOrderReport_ensure_auto_descriptions labelled_host Map.empty []) country_vals =
      Inr country_vals_filled"
    by (simp add: ensure_and_validate_def country_vals_ensured)
       (simp add: country_vals_def vals_get_def)
  from ord v country_vals_ensured have
    c: "LookerOrderReport_create plain_orm labelled_host Map.empty [] (ValsDict country_vals) =
          orm_create plain_orm Map.empty (ValsDict country_vals_filled)"
    by auto
  show ?thesis
    unfolding w c
    by (simp add: plain_orm_def rec_field_def one_report_def lead_vals_def map_add_def
        probability_vals_def probability_vals_filled_def country_vals_def
        country_vals_filled_def)
qed

subsection \<open>Validation before saving\<close>

text \<open>
  C2. A report must not be saved without group field and value field. \<open>create\<close> checks
  this and raises \<open>UserError\<close>; \<open>write\<close> does not: writing \<open>{'group_field': False}\<close> to a
  saved report succeeds on both models and leaves the record without a group field.
\<close>

theorem write_saves_without_group_field:
  "truthy (rec_field one_report 1 ''group_field'') \<and>
   (case LookerReport_write plain_orm quiet_host one_report [1]
           (WriteDict [''group_field'' \<mapsto> PBool False]) of
      Inl e \<Rightarrow> False
    | Inr st' \<Rightarrow> rec_field st' 1 ''group_field'' = PBool False) \<and>
   (case LookerOrderReport_write plain_orm quiet_host one_report [1]
           (WriteDict [''group_field'' \<mapsto> PBool False]) of
      Inl e \<Rightarrow> False
    | Inr st' \<Rightarrow> rec_field st' 1 ''group_field'' = PBool False) \<and>
   LookerReport_create plain_orm quiet_host one_report [] (ValsDict [''name'' \<mapsto> PStr ''x'']) =
     Inl UserError"
  by (simp add: LookerReport_write_def LookerOrderReport_write_def LookerReport_create_def
      ensure_and_validate_def
      LookerReport_ensure_auto_descriptions_def LookerOrderReport_ensure_auto_descriptions_def
      Let_def record_fallback_def vals_get_def rec_field_def one_report_def lead_vals_def
      crm_pie_def crm_bar_def crm_line_def label_def order_pie_def order_bar_def order_line_def
      order_field_label_def description_or_def fmt1_def py_str_def py_or_def quiet_host_def
      plain_orm_def set_if_absent_def map_add_def)

end
